theory Spec2Isabelle
  imports Main
begin

section \<open>Data model\<close>

text \<open>
  The decision logic of \<^verbatim>\<open>src/github/logic.py\<close> works on a snapshot of a pull
  request. The model classes themselves are not part of the sources at hand (only their
  accessors are called), so every accessor the logic reads is a field of a record here.
  Python \<^verbatim>\<open>str\<close> values are kept as UTF-8 byte strings. A timestamp
  (\<^verbatim>\<open>datetime\<close>) is the number of microseconds, the resolution of the type,
  between the epoch and the instant, and a \<^verbatim>\<open>timedelta\<close> a number of
  microseconds. A private function of the
  source is named here without its leading underscore, and
  \<^verbatim>\<open>ApprovedBeforeMergeStatus.APPROVED\<close> is \<open>APPROVED_BEFORE_MERGE\<close>, the name
  \<open>APPROVED\<close> being the review state.
\<close>

type_synonym datetime = int

datatype py_error = AssertionError | IndexError | OverflowError

datatype ReviewState = APPROVED | CHANGES_REQUESTED | COMMENTED | DISMISSED | PENDING

datatype MergeableState = MERGEABLE | CONFLICTING | UNKNOWN

datatype AutomergeLabel = AFTER_TESTS_AND_APPROVAL | AFTER_TESTS | AFTER_APPROVAL | IMMEDIATELY

datatype ApprovedBeforeMergeStatus = NO | NEEDS_FOLLOWUP | APPROVED_BEFORE_MERGE

record User =
  login :: string

record Comment =
  comment_author :: User
  comment_body :: string
  comment_published_at :: datetime

record Review =
  review_author :: User
  review_body :: string
  review_submitted_at :: datetime
  review_state :: ReviewState

record CheckRun =
  database_id :: string
  completed_at :: "datetime option"

record CheckSuite =
  check_runs :: "CheckRun list"

record Commit =
  check_suites :: "CheckSuite list"

record PullRequest =
  pr_id :: string
  pr_number :: int
  pr_title :: string
  pr_body :: string
  pr_author :: User
  pr_repository_owner_handle :: string
  pr_repository_name :: string
  pr_labels :: "string list"
  pr_closed :: bool
  pr_merged :: bool
  pr_merged_at :: "datetime option"
  pr_mergeable :: MergeableState
  pr_is_build_successful :: bool
  pr_is_approved :: bool
  pr_base_ref_name :: string
  pr_reviews :: "Review list"
  pr_comments :: "Comment list"
  pr_commits :: "Commit list"

text \<open>The values of \<^verbatim>\<open>src.config\<close> that the logic reads.\<close>

record Config =
  SGTM_FEATURE__AUTOMERGE_ENABLED :: bool
  SGTM_FEATURE__FOLLOWUP_REVIEW_GITHUB_USERS :: "string list"
  SGTM_FEATURE__CHECK_RERUN_THRESHOLD_HOURS :: int
  SGTM_FEATURE__CHECK_RERUN_BASE_REF_NAMES :: "string list"
  SGTM_FEATURE__CHECK_RERUN_ON_APPROVAL_ENABLED :: bool

subsection \<open>Accessors of the model classes\<close>

text \<open>
  Modelled from the spec: \<^verbatim>\<open>Review.is_approval\<close> and
  \<^verbatim>\<open>Review.is_approval_or_changes_requested\<close> live in the missing
  \<^verbatim>\<open>src/github/models/review.py\<close>; the data model of the spec says that the
  second is true only for the kinds APPROVED and CHANGES_REQUESTED.
\<close>

definition is_approval :: "Review \<Rightarrow> bool" where
  "is_approval r = (review_state r = APPROVED)"

definition is_approval_or_changes_requested :: "Review \<Rightarrow> bool" where
  "is_approval_or_changes_requested r =
     (review_state r = APPROVED \<or> review_state r = CHANGES_REQUESTED)"

text \<open>
  Modelled from the spec: \<^verbatim>\<open>author_handle()\<close> of a comment and of a pull request
  (missing model classes) is the login of its author.
\<close>

definition comment_author_handle :: "Comment \<Rightarrow> string" where
  "comment_author_handle c = login (comment_author c)"

definition pr_author_handle :: "PullRequest \<Rightarrow> string" where
  "pr_author_handle pr = login (pr_author pr)"

section \<open>Approval before merging\<close>

text \<open>
  \<^verbatim>\<open>pull_request_approved_before_merging\<close>, lines 85 to 131. The
  \<^verbatim>\<open>assert\<close> of line 93 is the \<open>Inl AssertionError\<close> branch;
  \<^verbatim>\<open>sorted(..., key=...)\<close> is a stable sort, as \<^const>\<open>sort_key\<close> is;
  \<^verbatim>\<open>xs[-1]\<close> is \<^const>\<open>last\<close>, read only behind the emptiness tests of
  lines 109 and 127.
\<close>

definition premerge_reviews :: "PullRequest \<Rightarrow> datetime \<Rightarrow> Review list" where
  "premerge_reviews pull_request merged_at =
     sort_key review_submitted_at
       (filter (\<lambda>review. is_approval_or_changes_requested review
                          \<and> review_submitted_at review < merged_at)
               (pr_reviews pull_request))"

definition pull_request_approved_before_merging ::
  "Config \<Rightarrow> PullRequest \<Rightarrow> py_error + ApprovedBeforeMergeStatus" where
  "pull_request_approved_before_merging cfg pull_request =
     (if \<not> pr_merged pull_request then Inl AssertionError
      else case pr_merged_at pull_request of
        None \<Rightarrow> Inr NO
      | Some merged_at \<Rightarrow>
          (let premerge = premerge_reviews pull_request merged_at in
           if length premerge = 0 then Inr NO
           else let latest_review = last premerge in
             if \<not> is_approval latest_review then Inr NO
             else if login (review_author latest_review)
                       \<in> set (SGTM_FEATURE__FOLLOWUP_REVIEW_GITHUB_USERS cfg)
             then (let no_followup_reviews =
                         filter (\<lambda>r. login (review_author r)
                                       \<notin> set (SGTM_FEATURE__FOLLOWUP_REVIEW_GITHUB_USERS cfg))
                                premerge
                   in if length no_followup_reviews = 0
                         \<or> \<not> is_approval (last no_followup_reviews)
                      then Inr NEEDS_FOLLOWUP
                      else Inr APPROVED_BEFORE_MERGE)
             else Inr APPROVED_BEFORE_MERGE))"

section \<open>Approval after merging\<close>

subsection \<open>The approval marker\<close>

text \<open>
  \<^verbatim>\<open>_is_approval_comment_body\<close>, lines 134 to 142: a regular-expression search in
  the lower-cased body for one of a fixed list of alternatives. On UTF-8 byte strings a
  search for a literal is a search for a contiguous run of bytes. Python's
  \<^verbatim>\<open>str.lower\<close> maps the ASCII capitals, and it maps exactly two characters
  outside ASCII to text that contains an ASCII letter: the Kelvin sign U+212A (bytes E2 84 AA)
  to \<^verbatim>\<open>k\<close>, and U+0130 (bytes C4 B0) to \<^verbatim>\<open>i\<close> followed by U+0307
  (bytes CC 87). Every other cased character outside ASCII becomes a letter outside ASCII,
  which no alternative of the expression contains, so it is left as it is.
\<close>

definition ascii_lower :: "char \<Rightarrow> char" where
  "ascii_lower c =
     (let n = (of_char c :: nat) in if 65 \<le> n \<and> n \<le> 90 then char_of (n + 32) else c)"

fun str_lower :: "string \<Rightarrow> string" where
  "str_lower [] = []"
| "str_lower (c # cs) =
     (if c = CHR 0xE2 \<and> take 2 cs = [CHR 0x84, CHR 0xAA]
        then CHR ''k'' # str_lower (drop 2 cs)
      else if c = CHR 0xC4 \<and> take 1 cs = [CHR 0xB0]
        then CHR ''i'' # CHR 0xCC # CHR 0x87 # str_lower (drop 1 cs)
      else ascii_lower c # str_lower cs)"

text \<open>
  The characters that \<^verbatim>\<open>\s\<close> matches in a \<^verbatim>\<open>str\<close> pattern, in UTF-8:
  U+0009 to U+000D, U+001C to U+0020, U+0085, U+00A0, U+1680, U+2000 to U+200A, U+2028,
  U+2029, U+202F, U+205F and U+3000.
\<close>

definition py_whitespace :: "string list" where
  "py_whitespace =
     map (\<lambda>c. [c]) [CHR 0x09, CHR 0x0A, CHR 0x0B, CHR 0x0C, CHR 0x0D,
                    CHR 0x1C, CHR 0x1D, CHR 0x1E, CHR 0x1F, CHR 0x20]
     @ [[CHR 0xC2, CHR 0x85], [CHR 0xC2, CHR 0xA0], [CHR 0xE1, CHR 0x9A, CHR 0x80]]
     @ map (\<lambda>c. [CHR 0xE2, CHR 0x80, c])
         [CHR 0x80, CHR 0x81, CHR 0x82, CHR 0x83, CHR 0x84, CHR 0x85, CHR 0x86, CHR 0x87,
          CHR 0x88, CHR 0x89, CHR 0x8A, CHR 0xA8, CHR 0xA9, CHR 0xAF]
     @ [[CHR 0xE2, CHR 0x81, CHR 0x9F], [CHR 0xE3, CHR 0x80, CHR 0x80]]"

text \<open>
  The alternatives of the expression, in its order; \<^verbatim>\<open>ship\s?it\<close> is one
  literal for the absent and one for each possible whitespace character. The last two are
  the emoji U+1F44D and U+1F6A2.
\<close>

definition approval_patterns :: "string list" where
  "approval_patterns =
     [''sgtm'', ''lgtm'', ''sounds good'', ''sound good'', ''looks good'', ''look good'',
      ''looks great'', ''look great'', ''+1'']
     @ map (\<lambda>w. ''ship'' @ w @ ''it'') ([] # py_whitespace)
     @ [[CHR 0xF0, CHR 0x9F, CHR 0x91, CHR 0x8D], [CHR 0xF0, CHR 0x9F, CHR 0x9A, CHR 0xA2]]"

fun re_search_literal :: "string \<Rightarrow> string \<Rightarrow> bool" where
  "re_search_literal p [] = (p = [])"
| "re_search_literal p (c # cs) = (take (length p) (c # cs) = p \<or> re_search_literal p cs)"

definition is_approval_comment_body :: "string \<Rightarrow> bool" where
  "is_approval_comment_body body =
     list_ex (\<lambda>p. re_search_literal p (str_lower body)) approval_patterns"

subsection \<open>The decision\<close>

text \<open>\<^verbatim>\<open>pull_request_approved_after_merging\<close>, lines 145 to 195.\<close>

definition postmerge_comments :: "Config \<Rightarrow> PullRequest \<Rightarrow> datetime \<Rightarrow> Comment list" where
  "postmerge_comments cfg pull_request merged_at =
     filter (\<lambda>comment. comment_published_at comment \<ge> merged_at
                \<and> comment_author_handle comment \<noteq> pr_author_handle pull_request
                \<and> login (comment_author comment)
                     \<notin> set (SGTM_FEATURE__FOLLOWUP_REVIEW_GITHUB_USERS cfg))
            (pr_comments pull_request)"

definition postmerge_reviews :: "Config \<Rightarrow> PullRequest \<Rightarrow> datetime \<Rightarrow> Review list" where
  "postmerge_reviews cfg pull_request merged_at =
     filter (\<lambda>review. review_submitted_at review \<ge> merged_at
                \<and> login (review_author review)
                     \<notin> set (SGTM_FEATURE__FOLLOWUP_REVIEW_GITHUB_USERS cfg))
            (pr_reviews pull_request)"

definition pull_request_approved_after_merging :: "Config \<Rightarrow> PullRequest \<Rightarrow> bool" where
  "pull_request_approved_after_merging cfg pull_request =
     (case pr_merged_at pull_request of
        Some merged_at \<Rightarrow>
          (let body_texts = map comment_body (postmerge_comments cfg pull_request merged_at)
                            @ map review_body (postmerge_reviews cfg pull_request merged_at)
           in filter is_approval_comment_body body_texts \<noteq> [])
      | None \<Rightarrow> False)"

section \<open>Automerge\<close>

subsection \<open>Labels, warning texts and the external client\<close>

fun label_value :: "AutomergeLabel \<Rightarrow> string" where
  "label_value AFTER_TESTS_AND_APPROVAL = ''merge after tests and approval''"
| "label_value AFTER_TESTS = ''merge after tests''"
| "label_value AFTER_APPROVAL = ''merge after approval''"
| "label_value IMMEDIATELY = ''merge immediately''"

definition AUTOMERGE_COMMENT_WARNING_AFTER_TESTS_AND_APPROVAL :: string where
  "AUTOMERGE_COMMENT_WARNING_AFTER_TESTS_AND_APPROVAL =
     ''**:warning: Reviewer:** If you approve this PR, it will be auto-merged as soon as''
     @ '' tests pass. If you don't want this to be auto-merged, either Request Changes or''
     @ '' remove the auto-merge label before accepting.''"

definition AUTOMERGE_COMMENT_WARNING_AFTER_APPROVAL :: string where
  "AUTOMERGE_COMMENT_WARNING_AFTER_APPROVAL =
     ''**:warning: Reviewer:** If you approve this PR, it will be auto-merged immediately.''
     @ '' If you don't want this to be auto-merged, either Request Changes or''
     @ '' remove the auto-merge label before accepting.''"

text \<open>
  Modelled from the spec: \<^verbatim>\<open>pull_request_has_label\<close> comes from the missing
  \<^verbatim>\<open>src/github/helpers.py\<close>; the labels of a pull request are a set of strings,
  and the helper tests membership. \<^verbatim>\<open>PullRequest.is_mergeable\<close> is missing too;
  the spec reads it as "merge-state strictly MERGEABLE".
\<close>

definition pull_request_has_label :: "PullRequest \<Rightarrow> string \<Rightarrow> bool" where
  "pull_request_has_label pull_request label = (label \<in> set (pr_labels pull_request))"

definition pr_is_mergeable :: "PullRequest \<Rightarrow> bool" where
  "pr_is_mergeable pull_request = (pr_mergeable pull_request = MERGEABLE)"

text \<open>
  The calls to \<^verbatim>\<open>github_client\<close>, outside the sources at hand, are recorded in
  the order they are made, and every call to the client is taken to return. What the
  client answers to \<^verbatim>\<open>rerequest_check_run\<close>, and what
  \<^verbatim>\<open>datetime.now\<close> returns, are parameters of the environment.
\<close>

datatype github_call =
    add_pr_comment string string int string
  | merge_pull_request string string int string string
  | rerequest_check_run string string string

record Env =
  now :: datetime
  rerequest_check_run_result :: "string \<Rightarrow> string \<Rightarrow> string \<Rightarrow> bool"

subsection \<open>Re-running stale checks\<close>

text \<open>
  The arithmetic of line 358. A \<^verbatim>\<open>datetime\<close> lies between
  0001-01-01T00:00:00 and 9999-12-31T23:59:59.999999, and a \<^verbatim>\<open>timedelta\<close>
  has at most 999999999 days in either direction; \<^verbatim>\<open>timedelta(hours=h)\<close>
  and the subtraction raise \<^verbatim>\<open>OverflowError\<close> outside these ranges.
\<close>

definition datetime_min :: datetime where
  "datetime_min = - 62135596800000000"

definition datetime_max :: datetime where
  "datetime_max = 253402300799999999"

definition timedelta_hours :: "int \<Rightarrow> py_error + int" where
  "timedelta_hours hours =
     (if 999999999 < \<bar>hours div 24\<bar> then Inl OverflowError
      else Inr (hours * 3600000000))"

definition datetime_sub :: "datetime \<Rightarrow> int \<Rightarrow> py_error + datetime" where
  "datetime_sub t delta =
     (if t - delta < datetime_min \<or> datetime_max < t - delta then Inl OverflowError
      else Inr (t - delta))"

text \<open>
  \<^verbatim>\<open>_maybe_rerun_stale_checks\<close>, lines 347 to 385. Line 366: a
  \<^verbatim>\<open>datetime\<close> is always truthy, so the conditional tests for
  \<^verbatim>\<open>None\<close>.
\<close>

definition is_check_run_stale :: "datetime \<Rightarrow> CheckRun \<Rightarrow> bool" where
  "is_check_run_stale freshness_date check_run =
     (case completed_at check_run of
        Some check_run_completion_time \<Rightarrow> check_run_completion_time < freshness_date
      | None \<Rightarrow> False)"

text \<open>
  The inner loop over the check runs of one suite, lines 363 to 383, with its
  \<^verbatim>\<open>break\<close>; the state is \<^verbatim>\<open>did_rerun\<close> and the calls made so far.
\<close>

fun rerun_first_stale_check_run ::
  "Env \<Rightarrow> PullRequest \<Rightarrow> datetime \<Rightarrow> CheckRun list
     \<Rightarrow> bool \<times> github_call list \<Rightarrow> bool \<times> github_call list" where
  "rerun_first_stale_check_run env pull_request freshness_date [] st = st"
| "rerun_first_stale_check_run env pull_request freshness_date (check_run # rest)
       (did_rerun, calls) =
     (if is_check_run_stale freshness_date check_run
      then (did_rerun \<or> rerequest_check_run_result env
                           (pr_repository_owner_handle pull_request)
                           (pr_repository_name pull_request)
                           (database_id check_run),
            calls @ [rerequest_check_run (pr_repository_owner_handle pull_request)
                                         (pr_repository_name pull_request)
                                         (database_id check_run)])
      else rerun_first_stale_check_run env pull_request freshness_date rest (did_rerun, calls))"

text \<open>The outer loop over the check suites, line 362.\<close>

fun rerun_check_suites ::
  "Env \<Rightarrow> PullRequest \<Rightarrow> datetime \<Rightarrow> CheckSuite list
     \<Rightarrow> bool \<times> github_call list \<Rightarrow> bool \<times> github_call list" where
  "rerun_check_suites env pull_request freshness_date [] st = st"
| "rerun_check_suites env pull_request freshness_date (check_suite # rest) st =
     rerun_check_suites env pull_request freshness_date rest
       (rerun_first_stale_check_run env pull_request freshness_date
          (check_runs check_suite) st)"

definition maybe_rerun_stale_checks ::
  "Config \<Rightarrow> Env \<Rightarrow> PullRequest \<Rightarrow> (py_error + bool) \<times> github_call list" where
  "maybe_rerun_stale_checks cfg env pull_request =
     (if pr_base_ref_name pull_request \<notin> set (SGTM_FEATURE__CHECK_RERUN_BASE_REF_NAMES cfg)
      then (Inr False, [])
      else if SGTM_FEATURE__CHECK_RERUN_THRESHOLD_HOURS cfg \<le> 0 then (Inr False, [])
      else
        let did_rerun = False in
        case timedelta_hours (SGTM_FEATURE__CHECK_RERUN_THRESHOLD_HOURS cfg) of
          Inl e \<Rightarrow> (Inl e, [])
        | Inr threshold \<Rightarrow>
            (case datetime_sub (now env) threshold of
               Inl e \<Rightarrow> (Inl e, [])
             | Inr freshness_date \<Rightarrow>
                 (case pr_commits pull_request of
                    [] \<Rightarrow> (Inl IndexError, [])
                  | commit # _ \<Rightarrow>
                      (case rerun_check_suites env pull_request freshness_date
                              (check_suites commit) (did_rerun, [])
                       of (did_rerun, calls) \<Rightarrow> (Inr did_rerun, calls)))))"

subsection \<open>The warning comment\<close>

text \<open>
  \<^verbatim>\<open>_pull_request_has_automerge_comment\<close>, lines 339 to 344, and
  \<^verbatim>\<open>maybe_add_automerge_warning_comment\<close>, lines 215 to 244, which returns
  nothing: its result is the list of calls it makes.
\<close>

definition pull_request_has_automerge_comment :: "PullRequest \<Rightarrow> string \<Rightarrow> bool" where
  "pull_request_has_automerge_comment pull_request automerge_comment =
     list_ex (\<lambda>comment. comment_body comment = automerge_comment) (pr_comments pull_request)"

definition maybe_add_automerge_warning_comment ::
  "Config \<Rightarrow> PullRequest \<Rightarrow> github_call list" where
  "maybe_add_automerge_warning_comment cfg pull_request =
     (if SGTM_FEATURE__AUTOMERGE_ENABLED cfg then
        let owner = pr_repository_owner_handle pull_request;
            repo_name = pr_repository_name pull_request;
            pr_number = pr_number pull_request;
            has_automerge_after_tests_and_approval =
              pull_request_has_label pull_request (label_value AFTER_TESTS_AND_APPROVAL);
            has_automerge_after_approval =
              pull_request_has_label pull_request (label_value AFTER_APPROVAL);
            automerge_comment =
              (if has_automerge_after_tests_and_approval
               then AUTOMERGE_COMMENT_WARNING_AFTER_TESTS_AND_APPROVAL
               else AUTOMERGE_COMMENT_WARNING_AFTER_APPROVAL)
        in if (has_automerge_after_tests_and_approval \<or> has_automerge_after_approval)
              \<and> \<not> pull_request_has_automerge_comment pull_request automerge_comment
              \<and> \<not> pr_is_approved pull_request
           then [add_pr_comment owner repo_name pr_number automerge_comment]
           else []
      else [])"

subsection \<open>Merging\<close>

text \<open>\<^verbatim>\<open>_pull_request_is_open\<close>, lines 335 and 336.\<close>

definition pull_request_is_open :: "PullRequest \<Rightarrow> bool" where
  "pull_request_is_open pull_request =
     (\<not> pr_closed pull_request \<and> \<not> pr_merged pull_request)"

text \<open>
  The first half of \<^verbatim>\<open>maybe_automerge_pull_request_and_rerun_stale_checks\<close>,
  lines 251 to 288: the chain of \<^verbatim>\<open>if\<close> and \<^verbatim>\<open>elif\<close> that sets the
  two local variables \<^verbatim>\<open>is_pull_request_ready_for_automerge\<close> and
  \<^verbatim>\<open>did_rerun_stale_required_checks\<close>. Line 252 assigns to the parameter, which
  the \<open>let\<close> of the same name does here. In \<^verbatim>\<open>ready and f(pr)\<close> the call is
  made only when \<^verbatim>\<open>ready\<close> holds.
\<close>

definition rerun_if_ready ::
  "Config \<Rightarrow> Env \<Rightarrow> PullRequest \<Rightarrow> bool \<Rightarrow> (py_error + bool \<times> bool) \<times> github_call list" where
  "rerun_if_ready cfg env pull_request is_pull_request_ready_for_automerge =
     (if is_pull_request_ready_for_automerge
      then (case maybe_rerun_stale_checks cfg env pull_request of
              (Inl e, calls) \<Rightarrow> (Inl e, calls)
            | (Inr did_rerun, calls) \<Rightarrow>
                (Inr (is_pull_request_ready_for_automerge, did_rerun), calls))
      else (Inr (is_pull_request_ready_for_automerge, False), []))"

definition automerge_readiness ::
  "Config \<Rightarrow> Env \<Rightarrow> PullRequest \<Rightarrow> bool \<Rightarrow> (py_error + bool \<times> bool) \<times> github_call list" where
  "automerge_readiness cfg env pull_request did_rerun_stale_required_checks =
     (let is_pull_request_ready_for_automerge = False;
          did_rerun_stale_required_checks = False
      in
      if \<not> SGTM_FEATURE__AUTOMERGE_ENABLED cfg \<or> \<not> pull_request_is_open pull_request
      then (Inr (False, did_rerun_stale_required_checks), [])
      else if pull_request_has_label pull_request (label_value IMMEDIATELY)
      then (Inr (pr_mergeable pull_request = MERGEABLE \<or> pr_mergeable pull_request = UNKNOWN,
                 did_rerun_stale_required_checks), [])
      else if pull_request_has_label pull_request (label_value AFTER_TESTS)
      then rerun_if_ready cfg env pull_request
             (pr_is_build_successful pull_request \<and> pr_is_mergeable pull_request)
      else if pull_request_has_label pull_request (label_value AFTER_TESTS_AND_APPROVAL)
      then (let is_pull_request_ready_for_automerge =
                  (pr_is_build_successful pull_request \<and> pr_is_mergeable pull_request
                   \<and> pr_is_approved pull_request)
            in if \<not> did_rerun_stale_required_checks
               then rerun_if_ready cfg env pull_request is_pull_request_ready_for_automerge
               else (Inr (is_pull_request_ready_for_automerge,
                          did_rerun_stale_required_checks), []))
      else if pull_request_has_label pull_request (label_value AFTER_APPROVAL)
      then (Inr (pr_is_mergeable pull_request \<and> pr_is_approved pull_request,
                 did_rerun_stale_required_checks), [])
      else (Inr (is_pull_request_ready_for_automerge, did_rerun_stale_required_checks), []))"

text \<open>
  The whole function, lines 248 to 309: the second half merges when the pull request is
  ready and no rerun was made, and returns whether it merged.
\<close>

definition maybe_automerge_pull_request_and_rerun_stale_checks ::
  "Config \<Rightarrow> Env \<Rightarrow> PullRequest \<Rightarrow> bool \<Rightarrow> (py_error + bool) \<times> github_call list" where
  "maybe_automerge_pull_request_and_rerun_stale_checks cfg env pull_request
       did_rerun_stale_required_checks =
     (case automerge_readiness cfg env pull_request did_rerun_stale_required_checks of
        (Inl e, calls) \<Rightarrow> (Inl e, calls)
      | (Inr (is_pull_request_ready_for_automerge, did_rerun_stale_required_checks), calls) \<Rightarrow>
          if is_pull_request_ready_for_automerge \<and> \<not> did_rerun_stale_required_checks
          then (Inr True,
                calls @ [merge_pull_request (pr_repository_owner_handle pull_request)
                                            (pr_repository_name pull_request)
                                            (pr_number pull_request)
                                            (pr_title pull_request)
                                            (pr_body pull_request)])
          else (Inr False, calls))"

section \<open>Reference definitions\<close>

subsection \<open>The pre-merge procedure of the specification\<close>

text \<open>
  The pre-merge decision as the specification words it: the qualifying reviews are those
  of kind APPROVED or CHANGES_REQUESTED submitted strictly before the merge, in ascending
  order of submission; the answer is read off the last of them and, for a follow-up
  reviewer, off the last one by somebody else.
\<close>

definition spec_approved_before_merging ::
  "string set \<Rightarrow> Review list \<Rightarrow> datetime \<Rightarrow> ApprovedBeforeMergeStatus" where
  "spec_approved_before_merging followup reviews merged_at =
     (let qualifying =
            sort_key review_submitted_at
              [r \<leftarrow> reviews. (review_state r = APPROVED \<or> review_state r = CHANGES_REQUESTED)
                               \<and> review_submitted_at r < merged_at]
      in if qualifying = [] \<or> review_state (last qualifying) \<noteq> APPROVED then NO
         else if login (review_author (last qualifying)) \<in> followup
         then (if [r \<leftarrow> qualifying. login (review_author r) \<notin> followup] = []
                  \<or> review_state (last [r \<leftarrow> qualifying. login (review_author r) \<notin> followup])
                       \<noteq> APPROVED
               then NEEDS_FOLLOWUP else APPROVED_BEFORE_MERGE)
         else APPROVED_BEFORE_MERGE)"

subsection \<open>Traces of the stale-check scan\<close>

text \<open>
  The freshness date of line 358 can be computed: the threshold is a
  \<^verbatim>\<open>timedelta\<close>, and the current time minus the threshold is a
  \<^verbatim>\<open>datetime\<close>.
\<close>

definition freshness_representable :: "Config \<Rightarrow> Env \<Rightarrow> bool" where
  "freshness_representable cfg env =
     (\<bar>SGTM_FEATURE__CHECK_RERUN_THRESHOLD_HOURS cfg div 24\<bar> \<le> 999999999
      \<and> datetime_min \<le> now env - SGTM_FEATURE__CHECK_RERUN_THRESHOLD_HOURS cfg * 3600000000
      \<and> now env - SGTM_FEATURE__CHECK_RERUN_THRESHOLD_HOURS cfg * 3600000000 \<le> datetime_max)"

text \<open>
  Names for what the scan of \<^verbatim>\<open>_maybe_rerun_stale_checks\<close> does: the call made
  for a check run, the answer of the client to it, the check runs that are rerun (for each
  suite its first stale run, if it has one), and whether some call of a trace was
  answered with True.
\<close>

definition rerequest_call :: "PullRequest \<Rightarrow> CheckRun \<Rightarrow> github_call" where
  "rerequest_call pull_request check_run =
     rerequest_check_run (pr_repository_owner_handle pull_request)
       (pr_repository_name pull_request) (database_id check_run)"

definition rerequest_answer :: "Env \<Rightarrow> PullRequest \<Rightarrow> CheckRun \<Rightarrow> bool" where
  "rerequest_answer env pull_request check_run =
     rerequest_check_run_result env (pr_repository_owner_handle pull_request)
       (pr_repository_name pull_request) (database_id check_run)"

definition rerun_targets :: "datetime \<Rightarrow> CheckSuite list \<Rightarrow> CheckRun list" where
  "rerun_targets freshness_date suites =
     concat (map (\<lambda>suite. case find (is_check_run_stale freshness_date) (check_runs suite) of
                             None \<Rightarrow> [] | Some check_run \<Rightarrow> [check_run]) suites)"

definition rerun_triggered :: "Env \<Rightarrow> github_call list \<Rightarrow> bool" where
  "rerun_triggered env calls =
     list_ex (\<lambda>c. case c of rerequest_check_run owner repo check_run \<Rightarrow>
                               rerequest_check_run_result env owner repo check_run
                          | _ \<Rightarrow> False) calls"

subsection \<open>Label precedence\<close>

text \<open>
  The readiness predicate of each label, as the table of the specification gives it, and
  the choice of a label by a scan in a given order. \<open>spec_precedence\<close> is the order the
  specification words; \<open>elif_precedence\<close> is the order of the tests of lines 258, 263, 271
  and 285.
\<close>

fun readiness_predicate :: "AutomergeLabel \<Rightarrow> PullRequest \<Rightarrow> bool" where
  "readiness_predicate IMMEDIATELY pr =
     (pr_mergeable pr = MERGEABLE \<or> pr_mergeable pr = UNKNOWN)"
| "readiness_predicate AFTER_TESTS pr = (pr_is_build_successful pr \<and> pr_is_mergeable pr)"
| "readiness_predicate AFTER_TESTS_AND_APPROVAL pr =
     (pr_is_build_successful pr \<and> pr_is_mergeable pr \<and> pr_is_approved pr)"
| "readiness_predicate AFTER_APPROVAL pr = (pr_is_mergeable pr \<and> pr_is_approved pr)"

definition spec_precedence :: "AutomergeLabel list" where
  "spec_precedence = [IMMEDIATELY, AFTER_TESTS_AND_APPROVAL, AFTER_TESTS, AFTER_APPROVAL]"

definition elif_precedence :: "AutomergeLabel list" where
  "elif_precedence = [IMMEDIATELY, AFTER_TESTS, AFTER_TESTS_AND_APPROVAL, AFTER_APPROVAL]"

definition selected_label :: "AutomergeLabel list \<Rightarrow> PullRequest \<Rightarrow> AutomergeLabel option" where
  "selected_label precedence pr =
     find (\<lambda>label. pull_request_has_label pr (label_value label)) precedence"

definition selected_ready :: "AutomergeLabel list \<Rightarrow> PullRequest \<Rightarrow> bool" where
  "selected_ready precedence pr =
     (case selected_label precedence pr of
        None \<Rightarrow> False
      | Some label \<Rightarrow> readiness_predicate label pr)"

text \<open>
  The merge call for a pull request, with its title and body, and the test for a merge
  call in a trace.
\<close>

definition merge_call :: "PullRequest \<Rightarrow> github_call" where
  "merge_call pr =
     merge_pull_request (pr_repository_owner_handle pr) (pr_repository_name pr)
       (pr_number pr) (pr_title pr) (pr_body pr)"

fun is_merge_call :: "github_call \<Rightarrow> bool" where
  "is_merge_call (merge_pull_request owner repo n title body) = True"
| "is_merge_call (add_pr_comment owner repo n body) = False"
| "is_merge_call (rerequest_check_run owner repo check_run) = False"

text \<open>The warning text that belongs to the labels of a pull request, lines 230 to 234.\<close>

definition automerge_warning_text :: "PullRequest \<Rightarrow> string" where
  "automerge_warning_text pr =
     (if pull_request_has_label pr (label_value AFTER_TESTS_AND_APPROVAL)
      then AUTOMERGE_COMMENT_WARNING_AFTER_TESTS_AND_APPROVAL
      else AUTOMERGE_COMMENT_WARNING_AFTER_APPROVAL)"

section \<open>Sample data\<close>

text \<open>
  A configuration, an environment whose clock shows 2026-11-04T00:00:00 and whose client
  answers True to every rerun request, and
  an open pull request by \<open>alice\<close>, built, mergeable, not approved, without labels,
  reviews, comments or commits.
\<close>

definition example_config :: Config where
  "example_config =
     \<lparr>SGTM_FEATURE__AUTOMERGE_ENABLED = True,
      SGTM_FEATURE__FOLLOWUP_REVIEW_GITHUB_USERS = [''followup-bot''],
      SGTM_FEATURE__CHECK_RERUN_THRESHOLD_HOURS = 24,
      SGTM_FEATURE__CHECK_RERUN_BASE_REF_NAMES = [''main''],
      SGTM_FEATURE__CHECK_RERUN_ON_APPROVAL_ENABLED = False\<rparr>"

definition example_env :: Env where
  "example_env =
     \<lparr>now = 1793750400000000, rerequest_check_run_result = (\<lambda>owner repo check_run. True)\<rparr>"

definition example_pull_request :: PullRequest where
  "example_pull_request =
     \<lparr>pr_id = ''PR_1'', pr_number = 1, pr_title = ''Fix the parser'',
      pr_body = ''Closes the parser issue.'', pr_author = \<lparr>login = ''alice''\<rparr>,
      pr_repository_owner_handle = ''acme'', pr_repository_name = ''widgets'',
      pr_labels = [], pr_closed = False, pr_merged = False, pr_merged_at = None,
      pr_mergeable = MERGEABLE, pr_is_build_successful = True, pr_is_approved = False,
      pr_base_ref_name = ''main'', pr_reviews = [], pr_comments = [], pr_commits = []\<rparr>"

definition example_review :: "string \<Rightarrow> datetime \<Rightarrow> ReviewState \<Rightarrow> string \<Rightarrow> Review" where
  "example_review who t kind text =
     \<lparr>review_author = \<lparr>login = who\<rparr>, review_body = text,
      review_submitted_at = t, review_state = kind\<rparr>"

definition example_comment :: "string \<Rightarrow> datetime \<Rightarrow> string \<Rightarrow> Comment" where
  "example_comment who t text =
     \<lparr>comment_author = \<lparr>login = who\<rparr>, comment_body = text, comment_published_at = t\<rparr>"

definition example_check_run :: "string \<Rightarrow> datetime option \<Rightarrow> CheckRun" where
  "example_check_run name t = \<lparr>database_id = name, completed_at = t\<rparr>"

definition example_commit :: "CheckRun list list \<Rightarrow> Commit" where
  "example_commit suites = \<lparr>check_suites = map (\<lambda>runs. \<lparr>check_runs = runs\<rparr>) suites\<rparr>"

text \<open>
  The sample pull request merged at time 100 with given reviews, and the open sample pull
  request with given labels and one commit with given check suites.
\<close>

definition merged_pull_request :: "Review list \<Rightarrow> PullRequest" where
  "merged_pull_request reviews =
     example_pull_request\<lparr>pr_closed := True, pr_merged := True, pr_merged_at := Some 100,
                            pr_reviews := reviews\<rparr>"

definition labelled_pull_request :: "string list \<Rightarrow> CheckRun list list \<Rightarrow> PullRequest" where
  "labelled_pull_request labels suites =
     example_pull_request\<lparr>pr_labels := labels, pr_commits := [example_commit suites]\<rparr>"

section \<open>Properties\<close>

subsection \<open>Approval before merging\<close>

lemma premerge_reviews_sorted:
  "sorted (map review_submitted_at (premerge_reviews pull_request merged_at))"
  by (simp add: premerge_reviews_def)

lemma premerge_reviews_set:
  "set (premerge_reviews pull_request merged_at) =
     {r \<in> set (pr_reviews pull_request).
        is_approval_or_changes_requested r \<and> review_submitted_at r < merged_at}"
  by (simp add: premerge_reviews_def)

text \<open>
  C2. On a merged pull request whose merge time is known, the code returns, without
  raising, what the reference procedure of the specification returns: NO when there is no
  qualifying review or the last one is not an approval; for a last approval by a follow-up
  handle, NEEDS_FOLLOWUP when the qualifying reviews by other authors are none or end with
  something else than an approval; APPROVED in every other case.
\<close>

theorem approved_before_merging_refines_spec:
  assumes "pr_merged pr" and "pr_merged_at pr = Some t"
  shows "pull_request_approved_before_merging cfg pr =
           Inr (spec_approved_before_merging
                  (set (SGTM_FEATURE__FOLLOWUP_REVIEW_GITHUB_USERS cfg)) (pr_reviews pr) t)"
  using assms
  by (simp add: pull_request_approved_before_merging_def spec_approved_before_merging_def
        premerge_reviews_def is_approval_def is_approval_or_changes_requested_def Let_def)

theorem approved_before_merging_refines_spec_witness:
  "pr_merged (merged_pull_request [example_review ''followup-bot'' 80 APPROVED ''ok'',
                                   example_review ''bob'' 50 APPROVED ''fine'',
                                   example_review ''bob'' 120 CHANGES_REQUESTED ''wait''])
   \<and> pull_request_approved_before_merging example_config
        (merged_pull_request [example_review ''followup-bot'' 80 APPROVED ''ok'',
                              example_review ''bob'' 50 APPROVED ''fine'',
                              example_review ''bob'' 120 CHANGES_REQUESTED ''wait''])
       = Inr APPROVED_BEFORE_MERGE
   \<and> pull_request_approved_before_merging example_config
        (merged_pull_request [example_review ''bob'' 50 APPROVED ''fine'',
                              example_review ''followup-bot'' 80 CHANGES_REQUESTED ''wait''])
       = Inr NO
   \<and> pull_request_approved_before_merging example_config
        (merged_pull_request [example_review ''bob'' 50 CHANGES_REQUESTED ''wait'',
                              example_review ''followup-bot'' 80 APPROVED ''ok''])
       = Inr NEEDS_FOLLOWUP"
  using
    approved_before_merging_refines_spec
      [of "merged_pull_request [example_review ''followup-bot'' 80 APPROVED ''ok'',
                                example_review ''bob'' 50 APPROVED ''fine'',
                                example_review ''bob'' 120 CHANGES_REQUESTED ''wait'']"
          100 example_config]
    approved_before_merging_refines_spec
      [of "merged_pull_request [example_review ''bob'' 50 APPROVED ''fine'',
                                example_review ''followup-bot'' 80 CHANGES_REQUESTED ''wait'']"
          100 example_config]
    approved_before_merging_refines_spec
      [of "merged_pull_request [example_review ''bob'' 50 CHANGES_REQUESTED ''wait'',
                                example_review ''followup-bot'' 80 APPROVED ''ok'']"
          100 example_config]
  by (simp add: merged_pull_request_def example_pull_request_def example_config_def
        example_review_def spec_approved_before_merging_def)

text \<open>
  C7. On a pull request that is not merged the assertion of line 93 fails: the call ends
  in an AssertionError and yields no status. On a merged pull request whose merge time is
  unknown the call returns NO.
\<close>

theorem approved_before_merging_fails_fast:
  "(\<not> pr_merged pr \<longrightarrow> pull_request_approved_before_merging cfg pr = Inl AssertionError)
   \<and> (pr_merged pr \<and> pr_merged_at pr = None
        \<longrightarrow> pull_request_approved_before_merging cfg pr = Inr NO)"
  by (simp add: pull_request_approved_before_merging_def)

theorem approved_before_merging_fails_fast_witness:
  "\<not> pr_merged example_pull_request
   \<and> pull_request_approved_before_merging example_config example_pull_request
       = Inl AssertionError
   \<and> pr_merged (example_pull_request\<lparr>pr_merged := True\<rparr>)
   \<and> pr_merged_at (example_pull_request\<lparr>pr_merged := True\<rparr>) = None
   \<and> pull_request_approved_before_merging example_config
        (example_pull_request\<lparr>pr_merged := True\<rparr>) = Inr NO"
  using approved_before_merging_fails_fast [of example_pull_request example_config]
    approved_before_merging_fails_fast
      [of "example_pull_request\<lparr>pr_merged := True\<rparr>" example_config]
  by (simp add: example_pull_request_def)

subsection \<open>Approval after merging\<close>

lemma approval_marker_examples:
  "is_approval_comment_body ''LGTM!''"
  "is_approval_comment_body ''Looks good to me''"
  "\<not> is_approval_comment_body ''nice work''"
  "\<not> is_approval_comment_body ''''"
  by code_simp+

lemma approved_after_merging_iff:
  assumes "pr_merged_at pr = Some t"
  shows "pull_request_approved_after_merging cfg pr \<longleftrightarrow>
           (\<exists>c \<in> set (pr_comments pr).
               t \<le> comment_published_at c
               \<and> login (comment_author c) \<noteq> login (pr_author pr)
               \<and> login (comment_author c) \<notin> set (SGTM_FEATURE__FOLLOWUP_REVIEW_GITHUB_USERS cfg)
               \<and> is_approval_comment_body (comment_body c))
           \<or> (\<exists>r \<in> set (pr_reviews pr).
               t \<le> review_submitted_at r
               \<and> login (review_author r) \<notin> set (SGTM_FEATURE__FOLLOWUP_REVIEW_GITHUB_USERS cfg)
               \<and> is_approval_comment_body (review_body r))"
  using assms
  by (auto simp add: pull_request_approved_after_merging_def postmerge_comments_def
        postmerge_reviews_def comment_author_handle_def pr_author_handle_def Let_def
        filter_empty_conv)

text \<open>
  C8. Without a merge time the answer is False. With a merge time \<open>t\<close> the answer is True
  exactly when an approval marker stands in the body of a comment published at or after
  \<open>t\<close> whose author is neither the author of the pull request nor a follow-up handle, or in
  the body of a review submitted at or after \<open>t\<close> whose author is not a follow-up handle;
  so it is False when no such body has a marker, however many comments there are.
\<close>

theorem approved_after_merging_characterisation:
  "(pr_merged_at pr = None \<longrightarrow> \<not> pull_request_approved_after_merging cfg pr)
   \<and> (\<forall>t. pr_merged_at pr = Some t \<longrightarrow>
         (pull_request_approved_after_merging cfg pr \<longleftrightarrow>
            (\<exists>c \<in> set (pr_comments pr).
               t \<le> comment_published_at c
               \<and> login (comment_author c) \<noteq> login (pr_author pr)
               \<and> login (comment_author c) \<notin> set (SGTM_FEATURE__FOLLOWUP_REVIEW_GITHUB_USERS cfg)
               \<and> is_approval_comment_body (comment_body c))
            \<or> (\<exists>r \<in> set (pr_reviews pr).
               t \<le> review_submitted_at r
               \<and> login (review_author r) \<notin> set (SGTM_FEATURE__FOLLOWUP_REVIEW_GITHUB_USERS cfg)
               \<and> is_approval_comment_body (review_body r))))"
proof (intro conjI allI impI)
  assume "pr_merged_at pr = None"
  then show "\<not> pull_request_approved_after_merging cfg pr"
    by (simp add: pull_request_approved_after_merging_def)
next
  fix t assume "pr_merged_at pr = Some t"
  then show "pull_request_approved_after_merging cfg pr \<longleftrightarrow>
            (\<exists>c \<in> set (pr_comments pr).
               t \<le> comment_published_at c
               \<and> login (comment_author c) \<noteq> login (pr_author pr)
               \<and> login (comment_author c) \<notin> set (SGTM_FEATURE__FOLLOWUP_REVIEW_GITHUB_USERS cfg)
               \<and> is_approval_comment_body (comment_body c))
            \<or> (\<exists>r \<in> set (pr_reviews pr).
               t \<le> review_submitted_at r
               \<and> login (review_author r) \<notin> set (SGTM_FEATURE__FOLLOWUP_REVIEW_GITHUB_USERS cfg)
               \<and> is_approval_comment_body (review_body r))"
    by (rule approved_after_merging_iff)
qed

theorem approved_after_merging_characterisation_witness:
  "\<not> pull_request_approved_after_merging example_config
        (example_pull_request\<lparr>pr_merged := True,
           pr_comments := [example_comment ''bob'' 150 ''LGTM!'']\<rparr>)
   \<and> pull_request_approved_after_merging example_config
        (example_pull_request\<lparr>pr_merged := True, pr_merged_at := Some 100,
           pr_comments := [example_comment ''bob'' 150 ''LGTM!'']\<rparr>)
   \<and> \<not> pull_request_approved_after_merging example_config
        (example_pull_request\<lparr>pr_merged := True, pr_merged_at := Some 100,
           pr_comments := [example_comment ''bob'' 150 ''nice work'',
                           example_comment ''carol'' 160 ''nice work'',
                           example_comment ''bob'' 90 ''LGTM!'']\<rparr>)"
  using approved_after_merging_characterisation
      [of "example_pull_request\<lparr>pr_merged := True,
             pr_comments := [example_comment ''bob'' 150 ''LGTM!'']\<rparr>" example_config]
    approved_after_merging_characterisation
      [of "example_pull_request\<lparr>pr_merged := True, pr_merged_at := Some 100,
             pr_comments := [example_comment ''bob'' 150 ''LGTM!'']\<rparr>" example_config]
    approved_after_merging_characterisation
      [of "example_pull_request\<lparr>pr_merged := True, pr_merged_at := Some 100,
           pr_comments := [example_comment ''bob'' 150 ''nice work'',
                           example_comment ''carol'' 160 ''nice work'',
                           example_comment ''bob'' 90 ''LGTM!'']\<rparr>" example_config]
  by (simp add: example_pull_request_def example_config_def example_comment_def
        approval_marker_examples)

text \<open>
  What the function does ignore. A comment written by the author of the pull request or
  by a follow-up handle, or published before the merge, and a review written by a
  follow-up handle or submitted before the merge, change nothing: the answer is the same
  with and without it, whatever its body and wherever it stands. A comment by anybody
  else and a review by anybody who is not a follow-up handle, at or after the merge and
  with an approval marker in the body, make the answer True.
\<close>

lemma approved_after_merging_ignores:
  "(login (comment_author c) = login (pr_author pr)
      \<or> login (comment_author c) \<in> set (SGTM_FEATURE__FOLLOWUP_REVIEW_GITHUB_USERS cfg)
      \<or> (\<exists>t. pr_merged_at pr = Some t \<and> comment_published_at c < t)
    \<longrightarrow> pull_request_approved_after_merging cfg (pr\<lparr>pr_comments := xs @ c # ys\<rparr>)
        = pull_request_approved_after_merging cfg (pr\<lparr>pr_comments := xs @ ys\<rparr>))
   \<and> (login (review_author r) \<in> set (SGTM_FEATURE__FOLLOWUP_REVIEW_GITHUB_USERS cfg)
      \<or> (\<exists>t. pr_merged_at pr = Some t \<and> review_submitted_at r < t)
    \<longrightarrow> pull_request_approved_after_merging cfg (pr\<lparr>pr_reviews := us @ r # vs\<rparr>)
        = pull_request_approved_after_merging cfg (pr\<lparr>pr_reviews := us @ vs\<rparr>))
   \<and> (pr_merged_at pr = Some t \<and> c' \<in> set (pr_comments pr) \<and> t \<le> comment_published_at c'
       \<and> login (comment_author c') \<noteq> login (pr_author pr)
       \<and> login (comment_author c') \<notin> set (SGTM_FEATURE__FOLLOWUP_REVIEW_GITHUB_USERS cfg)
       \<and> is_approval_comment_body (comment_body c')
    \<longrightarrow> pull_request_approved_after_merging cfg pr)
   \<and> (pr_merged_at pr = Some t \<and> r' \<in> set (pr_reviews pr) \<and> t \<le> review_submitted_at r'
       \<and> login (review_author r') \<notin> set (SGTM_FEATURE__FOLLOWUP_REVIEW_GITHUB_USERS cfg)
       \<and> is_approval_comment_body (review_body r')
    \<longrightarrow> pull_request_approved_after_merging cfg pr)"
  by (auto simp add: pull_request_approved_after_merging_def postmerge_comments_def
        postmerge_reviews_def comment_author_handle_def pr_author_handle_def Let_def
        filter_empty_conv split: option.splits)

lemma approved_after_merging_ignores_examples:
  "pull_request_approved_after_merging example_config
      (merged_pull_request []\<lparr>pr_comments := [example_comment ''alice'' 150 ''LGTM!'']\<rparr>)
     = pull_request_approved_after_merging example_config (merged_pull_request [])"
  "pull_request_approved_after_merging example_config
      (merged_pull_request []\<lparr>pr_comments := [example_comment ''bob'' 90 ''LGTM!'']\<rparr>)
     = pull_request_approved_after_merging example_config (merged_pull_request [])"
  "pull_request_approved_after_merging example_config
      (merged_pull_request [example_review ''followup-bot'' 150 APPROVED ''LGTM!''])
     = pull_request_approved_after_merging example_config (merged_pull_request [])"
  "pull_request_approved_after_merging example_config
      (merged_pull_request [example_review ''bob'' 90 APPROVED ''LGTM!''])
     = pull_request_approved_after_merging example_config (merged_pull_request [])"
  "pull_request_approved_after_merging example_config
      (merged_pull_request [example_review ''bob'' 150 COMMENTED ''LGTM!''])"
  by (simp_all add: pull_request_approved_after_merging_def postmerge_comments_def
        postmerge_reviews_def merged_pull_request_def example_pull_request_def
        example_config_def example_review_def example_comment_def pr_author_handle_def
        comment_author_handle_def approval_marker_examples)

text \<open>
  C3. A review written by the author of the pull request is not ignored, although a
  comment of the author is: with the pull request merged at 100 and written by
  \<open>alice\<close>, a review of \<open>alice\<close> at 150 with the body \<open>LGTM!\<close> turns the answer from
  False to True.
\<close>

theorem approved_after_merging_counts_author_review:
  "login (review_author (example_review ''alice'' 150 COMMENTED ''LGTM!''))
     = pr_author_handle (merged_pull_request [])
   \<and> pull_request_approved_after_merging example_config
        (merged_pull_request [example_review ''alice'' 150 COMMENTED ''LGTM!''])
   \<and> \<not> pull_request_approved_after_merging example_config (merged_pull_request [])"
  by (simp add: pull_request_approved_after_merging_def postmerge_comments_def
        postmerge_reviews_def merged_pull_request_def example_pull_request_def
        example_config_def example_review_def pr_author_handle_def approval_marker_examples)

subsection \<open>Re-running stale checks\<close>

lemma rerun_first_stale_check_run_find:
  "rerun_first_stale_check_run env pr f runs (d, cs) =
     (case find (is_check_run_stale f) runs of
        None \<Rightarrow> (d, cs)
      | Some r \<Rightarrow> (d \<or> rerequest_answer env pr r, cs @ [rerequest_call pr r]))"
  by (induction runs) (simp_all add: rerequest_answer_def rerequest_call_def)

lemma rerun_check_suites_targets:
  "rerun_check_suites env pr f suites (d, cs) =
     (d \<or> (\<exists>r \<in> set (rerun_targets f suites). rerequest_answer env pr r),
      cs @ map (rerequest_call pr) (rerun_targets f suites))"
proof (induction suites arbitrary: d cs)
  case Nil
  then show ?case by (simp add: rerun_targets_def)
next
  case (Cons s suites)
  show ?case
  proof (cases "find (is_check_run_stale f) (check_runs s)")
    case None
    then show ?thesis
      using Cons.IH [of d cs]
      by (simp add: rerun_first_stale_check_run_find rerun_targets_def)
  next
    case (Some r)
    then show ?thesis
      using Cons.IH [of "d \<or> rerequest_answer env pr r" "cs @ [rerequest_call pr r]"]
      by (auto simp add: rerun_first_stale_check_run_find rerun_targets_def)
  qed
qed

lemma is_check_run_stale_iff:
  "is_check_run_stale f r \<longleftrightarrow> (\<exists>t. completed_at r = Some t \<and> t < f)"
  by (simp add: is_check_run_stale_def split: option.splits)

lemma rerun_triggered_map:
  "rerun_triggered env (map (rerequest_call pr) rs) \<longleftrightarrow> (\<exists>r \<in> set rs. rerequest_answer env pr r)"
  by (induction rs) (simp_all add: rerun_triggered_def rerequest_call_def rerequest_answer_def)

lemma maybe_rerun_stale_checks_eq:
  "maybe_rerun_stale_checks cfg env pr =
     (if pr_base_ref_name pr \<in> set (SGTM_FEATURE__CHECK_RERUN_BASE_REF_NAMES cfg)
         \<and> 0 < SGTM_FEATURE__CHECK_RERUN_THRESHOLD_HOURS cfg
      then if freshness_representable cfg env
           then case pr_commits pr of
                  [] \<Rightarrow> (Inl IndexError, [])
                | commit # _ \<Rightarrow>
                    (let targets =
                           rerun_targets
                             (now env
                              - SGTM_FEATURE__CHECK_RERUN_THRESHOLD_HOURS cfg * 3600000000)
                             (check_suites commit)
                     in (Inr (\<exists>r \<in> set targets. rerequest_answer env pr r),
                         map (rerequest_call pr) targets))
           else (Inl OverflowError, [])
      else (Inr False, []))"
proof (cases "freshness_representable cfg env")
  case True
  then show ?thesis
    by (simp add: maybe_rerun_stale_checks_def timedelta_hours_def datetime_sub_def
          freshness_representable_def rerun_check_suites_targets Let_def
          split: list.splits)
next
  case False
  then show ?thesis
    by (auto simp add: maybe_rerun_stale_checks_def timedelta_hours_def datetime_sub_def
          freshness_representable_def Let_def)
qed

lemma find_stale_completed:
  assumes "find (is_check_run_stale f) runs = Some r"
  shows "r \<in> set runs \<and> (\<exists>t. completed_at r = Some t \<and> t < f)"
  using assms by (auto simp add: find_Some_iff is_check_run_stale_iff)

lemma rerun_targets_single:
  assumes "r \<in> set (rerun_targets f [suite])"
  shows "r \<in> set (check_runs suite) \<and> (\<exists>t. completed_at r = Some t \<and> t < f)"
proof (cases "find (is_check_run_stale f) (check_runs suite)")
  case None
  with assms show ?thesis by (simp add: rerun_targets_def)
next
  case (Some x)
  with assms have "r = x" by (simp add: rerun_targets_def)
  with Some show ?thesis by (simp add: find_stale_completed)
qed

lemma rerun_targets_first_stale:
  assumes "r \<in> set (rerun_targets f [suite])"
  shows "\<exists>i < length (check_runs suite).
           check_runs suite ! i = r \<and> is_check_run_stale f r
           \<and> (\<forall>j < i. \<not> is_check_run_stale f (check_runs suite ! j))"
proof (cases "find (is_check_run_stale f) (check_runs suite)")
  case None
  with assms show ?thesis by (simp add: rerun_targets_def)
next
  case (Some x)
  with assms have "r = x" by (simp add: rerun_targets_def)
  with Some have "find (is_check_run_stale f) (check_runs suite) = Some r" by simp
  then show ?thesis by (auto simp add: find_Some_iff)
qed

lemma rerun_targets_empty_iff:
  "rerun_targets f [suite] = [] \<longleftrightarrow> (\<forall>r \<in> set (check_runs suite). \<not> is_check_run_stale f r)"
proof (cases "find (is_check_run_stale f) (check_runs suite)")
  case None
  then have "rerun_targets f [suite] = []" by (simp add: rerun_targets_def)
  moreover from None have "\<forall>r \<in> set (check_runs suite). \<not> is_check_run_stale f r"
    by (simp add: find_None_iff)
  ultimately show ?thesis by simp
next
  case (Some x)
  then have "x \<in> set (check_runs suite) \<and> is_check_run_stale f x"
    by (auto simp add: find_Some_iff)
  with Some show ?thesis by (auto simp add: rerun_targets_def)
qed

text \<open>
  C5. The calls of one invocation are, suite by suite in the order of the first commit,
  the calls for the check runs that \<open>rerun_targets\<close> picks in that suite. It picks at most
  one run per suite: the first stale run in the order of the suite, which has a completion
  time; it picks none exactly when the suite has no stale run, so none in a suite whose
  runs all lack a completion time. A run is stale exactly when it has a completion time
  strictly before the current time minus the threshold. There are calls only behind the
  guards of lines 348 to 353 and when the freshness date can be computed.
\<close>

theorem rerun_stale_checks_one_per_suite:
  "snd (maybe_rerun_stale_checks cfg env pr) =
     (if pr_base_ref_name pr \<in> set (SGTM_FEATURE__CHECK_RERUN_BASE_REF_NAMES cfg)
         \<and> 0 < SGTM_FEATURE__CHECK_RERUN_THRESHOLD_HOURS cfg
         \<and> freshness_representable cfg env
      then case pr_commits pr of
             [] \<Rightarrow> []
           | commit # _ \<Rightarrow>
               concat (map (\<lambda>suite. map (rerequest_call pr)
                               (rerun_targets
                                  (now env
                                   - SGTM_FEATURE__CHECK_RERUN_THRESHOLD_HOURS cfg * 3600000000)
                                  [suite]))
                           (check_suites commit))
      else [])
   \<and> length (rerun_targets f [suite]) \<le> 1
   \<and> (\<forall>r \<in> set (rerun_targets f [suite]).
        r \<in> set (check_runs suite) \<and> completed_at r \<noteq> None)
   \<and> (\<forall>r \<in> set (rerun_targets f [suite]).
        \<exists>i < length (check_runs suite).
          check_runs suite ! i = r \<and> is_check_run_stale f r
          \<and> (\<forall>j < i. \<not> is_check_run_stale f (check_runs suite ! j)))
   \<and> (rerun_targets f [suite] = []
        \<longleftrightarrow> (\<forall>r \<in> set (check_runs suite). \<not> is_check_run_stale f r))
   \<and> ((\<forall>r \<in> set (check_runs suite). completed_at r = None) \<longrightarrow> rerun_targets f [suite] = [])
   \<and> (is_check_run_stale
          (now env - SGTM_FEATURE__CHECK_RERUN_THRESHOLD_HOURS cfg * 3600000000) run
        \<longleftrightarrow> (\<exists>t. completed_at run = Some t
                  \<and> t < now env - SGTM_FEATURE__CHECK_RERUN_THRESHOLD_HOURS cfg * 3600000000))"
proof (intro conjI)
  have "concat (map (\<lambda>suite. map (rerequest_call pr) (rerun_targets g [suite])) suites) =
          map (rerequest_call pr) (rerun_targets g suites)"
    for g suites
    by (induction suites) (simp_all add: rerun_targets_def)
  then show "snd (maybe_rerun_stale_checks cfg env pr) =
     (if pr_base_ref_name pr \<in> set (SGTM_FEATURE__CHECK_RERUN_BASE_REF_NAMES cfg)
         \<and> 0 < SGTM_FEATURE__CHECK_RERUN_THRESHOLD_HOURS cfg
         \<and> freshness_representable cfg env
      then case pr_commits pr of
             [] \<Rightarrow> []
           | commit # _ \<Rightarrow>
               concat (map (\<lambda>suite. map (rerequest_call pr)
                               (rerun_targets
                                  (now env
                                   - SGTM_FEATURE__CHECK_RERUN_THRESHOLD_HOURS cfg * 3600000000)
                                  [suite]))
                           (check_suites commit))
      else [])"
    by (simp add: maybe_rerun_stale_checks_eq Let_def split: list.splits)
  show "length (rerun_targets f [suite]) \<le> 1"
    by (simp add: rerun_targets_def split: option.splits)
  show "\<forall>r \<in> set (rerun_targets f [suite]). r \<in> set (check_runs suite) \<and> completed_at r \<noteq> None"
    using rerun_targets_single [of _ f suite] by auto
  show "\<forall>r \<in> set (rerun_targets f [suite]).
        \<exists>i < length (check_runs suite).
          check_runs suite ! i = r \<and> is_check_run_stale f r
          \<and> (\<forall>j < i. \<not> is_check_run_stale f (check_runs suite ! j))"
    by (rule ballI) (rule rerun_targets_first_stale)
  show "rerun_targets f [suite] = []
        \<longleftrightarrow> (\<forall>r \<in> set (check_runs suite). \<not> is_check_run_stale f r)"
    by (rule rerun_targets_empty_iff)
  show "(\<forall>r \<in> set (check_runs suite). completed_at r = None) \<longrightarrow> rerun_targets f [suite] = []"
  proof
    assume none: "\<forall>r \<in> set (check_runs suite). completed_at r = None"
    show "rerun_targets f [suite] = []"
    proof (cases "rerun_targets f [suite]")
      case Nil
      then show ?thesis .
    next
      case (Cons r rs)
      then have "r \<in> set (rerun_targets f [suite])" by simp
      then have "r \<in> set (check_runs suite) \<and> (\<exists>t. completed_at r = Some t \<and> t < f)"
        by (rule rerun_targets_single)
      with none show ?thesis by auto
    qed
  qed
  show "is_check_run_stale
          (now env - SGTM_FEATURE__CHECK_RERUN_THRESHOLD_HOURS cfg * 3600000000) run
        \<longleftrightarrow> (\<exists>t. completed_at run = Some t
                  \<and> t < now env - SGTM_FEATURE__CHECK_RERUN_THRESHOLD_HOURS cfg * 3600000000)"
    by (rule is_check_run_stale_iff)
qed

theorem rerun_stale_checks_one_per_suite_witness:
  "snd (maybe_rerun_stale_checks example_config example_env
          (example_pull_request\<lparr>pr_commits :=
            [example_commit [[example_check_run ''run-1'' None,
                              example_check_run ''run-2'' (Some 1793000000000000),
                              example_check_run ''run-3'' (Some 100)],
                             [example_check_run ''run-5'' None],
                             [example_check_run ''run-6'' (Some 1793664000000000),
                              example_check_run ''run-7'' (Some 1793663999999999)]],
             example_commit [[example_check_run ''run-8'' (Some 5)]]]\<rparr>))
     = [rerequest_check_run ''acme'' ''widgets'' ''run-2'',
        rerequest_check_run ''acme'' ''widgets'' ''run-7'']
   \<and> rerun_targets 1793664000000000 [\<lparr>check_runs = [example_check_run ''run-1'' None,
                              example_check_run ''run-2'' (Some 1793000000000000),
                              example_check_run ''run-3'' (Some 100)]\<rparr>]
       = [example_check_run ''run-2'' (Some 1793000000000000)]
   \<and> is_check_run_stale (now example_env
                           - SGTM_FEATURE__CHECK_RERUN_THRESHOLD_HOURS example_config
                             * 3600000000)
        (example_check_run ''run-7'' (Some 1793663999999999))"
  using rerun_stale_checks_one_per_suite
    [of example_config example_env
        "(example_pull_request\<lparr>pr_commits :=
            [example_commit [[example_check_run ''run-1'' None,
                              example_check_run ''run-2'' (Some 1793000000000000),
                              example_check_run ''run-3'' (Some 100)],
                             [example_check_run ''run-5'' None],
                             [example_check_run ''run-6'' (Some 1793664000000000),
                              example_check_run ''run-7'' (Some 1793663999999999)]],
             example_commit [[example_check_run ''run-8'' (Some 5)]]]\<rparr>)"
        1793664000000000 "\<lparr>check_runs = [example_check_run ''run-1'' None,
                              example_check_run ''run-2'' (Some 1793000000000000),
                              example_check_run ''run-3'' (Some 100)]\<rparr>"
        "example_check_run ''run-7'' (Some 1793663999999999)"]
  by (simp add: example_config_def example_env_def example_pull_request_def
        example_commit_def example_check_run_def rerun_targets_def rerequest_call_def
        is_check_run_stale_def freshness_representable_def datetime_min_def datetime_max_def)

text \<open>
  C10, as the code has it. With no commit in the snapshot, a base ref of the allow-list
  and a positive threshold for which the freshness date can be computed, the scan reads
  the first commit of an empty list: the call ends in an IndexError, having made no call
  to the client, and returns no Boolean. With a threshold too large for that, the call
  ends in an OverflowError at line 358, before it reads the commits.
\<close>

theorem rerun_stale_checks_empty_commits:
  assumes "pr_commits pr = []"
    and "pr_base_ref_name pr \<in> set (SGTM_FEATURE__CHECK_RERUN_BASE_REF_NAMES cfg)"
    and "0 < SGTM_FEATURE__CHECK_RERUN_THRESHOLD_HOURS cfg"
  shows "(freshness_representable cfg env
            \<longrightarrow> maybe_rerun_stale_checks cfg env pr = (Inl IndexError, []))
       \<and> (\<not> freshness_representable cfg env
            \<longrightarrow> maybe_rerun_stale_checks cfg env pr = (Inl OverflowError, []))"
  using assms by (simp add: maybe_rerun_stale_checks_eq)

theorem rerun_stale_checks_empty_commits_witness:
  "pr_commits example_pull_request = []
   \<and> pr_base_ref_name example_pull_request
        \<in> set (SGTM_FEATURE__CHECK_RERUN_BASE_REF_NAMES example_config)
   \<and> 0 < SGTM_FEATURE__CHECK_RERUN_THRESHOLD_HOURS example_config
   \<and> freshness_representable example_config example_env
   \<and> maybe_rerun_stale_checks example_config example_env example_pull_request
       = (Inl IndexError, [])
   \<and> \<not> freshness_representable
          (example_config\<lparr>SGTM_FEATURE__CHECK_RERUN_THRESHOLD_HOURS := 30000000\<rparr>) example_env
   \<and> maybe_rerun_stale_checks
        (example_config\<lparr>SGTM_FEATURE__CHECK_RERUN_THRESHOLD_HOURS := 30000000\<rparr>)
        example_env example_pull_request
       = (Inl OverflowError, [])"
  using rerun_stale_checks_empty_commits [of example_pull_request example_config example_env]
    rerun_stale_checks_empty_commits
      [of example_pull_request
          "example_config\<lparr>SGTM_FEATURE__CHECK_RERUN_THRESHOLD_HOURS := 30000000\<rparr>"
          example_env]
  by (simp add: example_pull_request_def example_config_def example_env_def
        freshness_representable_def datetime_min_def datetime_max_def)

text \<open>
  A threshold of 20000000 hours is positive, and on 2026-11-04 it reaches back before
  the year 1: with no commit, the call ends in an OverflowError, not in an IndexError.
\<close>

theorem rerun_stale_checks_overflow_before_commits:
  "pr_commits example_pull_request = []
   \<and> pr_base_ref_name example_pull_request
        \<in> set (SGTM_FEATURE__CHECK_RERUN_BASE_REF_NAMES
                 (example_config\<lparr>SGTM_FEATURE__CHECK_RERUN_THRESHOLD_HOURS := 20000000\<rparr>))
   \<and> 0 < SGTM_FEATURE__CHECK_RERUN_THRESHOLD_HOURS
            (example_config\<lparr>SGTM_FEATURE__CHECK_RERUN_THRESHOLD_HOURS := 20000000\<rparr>)
   \<and> maybe_rerun_stale_checks
        (example_config\<lparr>SGTM_FEATURE__CHECK_RERUN_THRESHOLD_HOURS := 20000000\<rparr>)
        example_env example_pull_request
       = (Inl OverflowError, [])
   \<and> maybe_rerun_stale_checks
        (example_config\<lparr>SGTM_FEATURE__CHECK_RERUN_THRESHOLD_HOURS := 20000000\<rparr>)
        example_env example_pull_request
       \<noteq> (Inl IndexError, [])"
  by (simp add: maybe_rerun_stale_checks_def timedelta_hours_def datetime_sub_def
        datetime_min_def datetime_max_def example_pull_request_def example_config_def
        example_env_def)

subsection \<open>Automerge\<close>

lemmas example_defs =
  labelled_pull_request_def example_pull_request_def example_config_def example_env_def
  example_commit_def example_check_run_def

lemmas automerge_defs =
  maybe_automerge_pull_request_and_rerun_stale_checks_def automerge_readiness_def
  rerun_if_ready_def maybe_rerun_stale_checks_def pull_request_is_open_def
  pull_request_has_label_def pr_is_mergeable_def is_check_run_stale_def
  timedelta_hours_def datetime_sub_def datetime_min_def datetime_max_def

lemma not_merge_rerequest_call [simp]:
  "merge_call pr \<noteq> rerequest_call pr' r" "\<not> is_merge_call (rerequest_call pr' r)"
  by (simp_all add: merge_call_def rerequest_call_def)

lemma rerun_if_ready_cases:
  "rerun_if_ready cfg env pr ready =
     (if ready then
        (case maybe_rerun_stale_checks cfg env pr of
           (Inl e, calls) \<Rightarrow> (Inl e, calls)
         | (Inr d, calls) \<Rightarrow> (Inr (True, d), calls))
      else (Inr (False, False), []))"
  by (simp add: rerun_if_ready_def split: prod.splits sum.splits)

lemma automerge_readiness_skipped:
  assumes "\<not> SGTM_FEATURE__AUTOMERGE_ENABLED cfg \<or> \<not> pull_request_is_open pr"
  shows "automerge_readiness cfg env pr b = (Inr (False, False), [])"
  using assms by (auto simp add: automerge_readiness_def)

lemma automerge_readiness_by_label:
  assumes "SGTM_FEATURE__AUTOMERGE_ENABLED cfg" and "pull_request_is_open pr"
  shows "automerge_readiness cfg env pr b =
           (case selected_label elif_precedence pr of
              None \<Rightarrow> (Inr (False, False), [])
            | Some label \<Rightarrow>
                if label = AFTER_TESTS \<or> label = AFTER_TESTS_AND_APPROVAL
                then rerun_if_ready cfg env pr (readiness_predicate label pr)
                else (Inr (readiness_predicate label pr, False), []))"
  using assms
  by (simp add: automerge_readiness_def selected_label_def elif_precedence_def Let_def)

lemma maybe_rerun_stale_checks_cases:
  "(\<exists>targets. maybe_rerun_stale_checks cfg env pr =
       (Inr (rerun_triggered env (map (rerequest_call pr) targets)),
        map (rerequest_call pr) targets))
   \<or> (\<exists>e. maybe_rerun_stale_checks cfg env pr = (Inl e, []))
      \<and> \<not> (freshness_representable cfg env \<and> pr_commits pr \<noteq> [])"
proof -
  have nil: "\<exists>targets. (Inr False, []) =
          (Inr (rerun_triggered env (map (rerequest_call pr) targets)),
           map (rerequest_call pr) targets)"
    by (rule exI [where x = "[]"]) (simp add: rerun_triggered_def)
  show ?thesis
  proof (cases "pr_base_ref_name pr \<in> set (SGTM_FEATURE__CHECK_RERUN_BASE_REF_NAMES cfg)
         \<and> 0 < SGTM_FEATURE__CHECK_RERUN_THRESHOLD_HOURS cfg")
    case False
    then have "maybe_rerun_stale_checks cfg env pr = (Inr False, [])"
      by (auto simp add: maybe_rerun_stale_checks_eq)
    then show ?thesis using nil by simp
  next
    case guards: True
    show ?thesis
    proof (cases "freshness_representable cfg env")
      case False
      with guards have "maybe_rerun_stale_checks cfg env pr = (Inl OverflowError, [])"
        by (simp add: maybe_rerun_stale_checks_eq)
      with False show ?thesis by simp
    next
      case True
      show ?thesis
      proof (cases "pr_commits pr")
        case Nil
        with guards True have "maybe_rerun_stale_checks cfg env pr = (Inl IndexError, [])"
          by (simp add: maybe_rerun_stale_checks_eq)
        with Nil show ?thesis by simp
      next
        case (Cons commit rest)
        with guards True
        have "maybe_rerun_stale_checks cfg env pr =
               (Inr (rerun_triggered env (map (rerequest_call pr)
                       (rerun_targets
                          (now env - SGTM_FEATURE__CHECK_RERUN_THRESHOLD_HOURS cfg * 3600000000)
                          (check_suites commit)))),
                map (rerequest_call pr)
                  (rerun_targets
                     (now env - SGTM_FEATURE__CHECK_RERUN_THRESHOLD_HOURS cfg * 3600000000)
                     (check_suites commit)))"
          by (simp add: maybe_rerun_stale_checks_eq rerun_triggered_map Let_def)
        then show ?thesis by blast
      qed
    qed
  qed
qed

lemma rerun_if_ready_outcomes:
  "rerun_if_ready cfg env pr ready = (Inr (False, False), []) \<and> \<not> ready
   \<or> (\<exists>targets. rerun_if_ready cfg env pr ready =
         (Inr (True, rerun_triggered env (map (rerequest_call pr) targets)),
          map (rerequest_call pr) targets)) \<and> ready
   \<or> (\<exists>e. rerun_if_ready cfg env pr ready = (Inl e, [])) \<and> ready
      \<and> \<not> (freshness_representable cfg env \<and> pr_commits pr \<noteq> [])"
proof (cases ready)
  case False
  then show ?thesis by (simp add: rerun_if_ready_cases)
next
  case True
  consider
      (scanned) targets where
        "maybe_rerun_stale_checks cfg env pr =
           (Inr (rerun_triggered env (map (rerequest_call pr) targets)),
            map (rerequest_call pr) targets)"
    | (failed) e where "maybe_rerun_stale_checks cfg env pr = (Inl e, [])"
        "\<not> (freshness_representable cfg env \<and> pr_commits pr \<noteq> [])"
    using maybe_rerun_stale_checks_cases [of cfg env pr] by blast
  then show ?thesis
  proof cases
    case scanned
    with True
    have "rerun_if_ready cfg env pr ready =
            (Inr (True, rerun_triggered env (map (rerequest_call pr) targets)),
             map (rerequest_call pr) targets)"
      by (simp add: rerun_if_ready_cases)
    with True show ?thesis by blast
  next
    case failed
    with True have "rerun_if_ready cfg env pr ready = (Inl e, [])"
      by (simp add: rerun_if_ready_cases)
    with True failed(2) show ?thesis by blast
  qed
qed

text \<open>
  What lines 251 to 288 can come to, for an open pull request with the feature enabled.
\<close>

lemma automerge_readiness_outcomes:
  assumes "SGTM_FEATURE__AUTOMERGE_ENABLED cfg" and "pull_request_is_open pr"
  shows "automerge_readiness cfg env pr b = (Inr (False, False), [])
           \<and> \<not> selected_ready elif_precedence pr
         \<or> (\<exists>targets. automerge_readiness cfg env pr b =
               (Inr (True, rerun_triggered env (map (rerequest_call pr) targets)),
                map (rerequest_call pr) targets))
           \<and> selected_ready elif_precedence pr
         \<or> (\<exists>e. automerge_readiness cfg env pr b = (Inl e, []))
           \<and> selected_ready elif_precedence pr
           \<and> \<not> (freshness_representable cfg env \<and> pr_commits pr \<noteq> [])"
proof (cases "selected_label elif_precedence pr")
  case None
  then show ?thesis
    using assms by (simp add: automerge_readiness_by_label selected_ready_def)
next
  case (Some label)
  show ?thesis
  proof (cases "label = AFTER_TESTS \<or> label = AFTER_TESTS_AND_APPROVAL")
    case True
    with assms Some
    have "automerge_readiness cfg env pr b
            = rerun_if_ready cfg env pr (readiness_predicate label pr)"
      and "selected_ready elif_precedence pr = readiness_predicate label pr"
      by (simp_all add: automerge_readiness_by_label selected_ready_def)
    then show ?thesis
      using rerun_if_ready_outcomes [of cfg env pr "readiness_predicate label pr"]
      by simp
  next
    case False
    have "\<exists>targets. (Inr (True, False), []) =
            (Inr (True, rerun_triggered env (map (rerequest_call pr) targets)),
             map (rerequest_call pr) targets)"
      by (rule exI [where x = "[]"]) (simp add: rerun_triggered_def)
    then show ?thesis
      using assms Some False
      by (cases "readiness_predicate label pr")
         (simp_all add: automerge_readiness_by_label selected_ready_def)
  qed
qed

lemma rerun_calls_no_merge:
  "merge_call pr \<notin> set (map (rerequest_call pr) targets)"
  "c \<in> set (map (rerequest_call pr) targets) \<Longrightarrow> \<not> is_merge_call c"
  by auto

text \<open>The whole function on an open pull request with the feature enabled.\<close>

lemma maybe_automerge_outcomes:
  assumes "SGTM_FEATURE__AUTOMERGE_ENABLED cfg" and "pull_request_is_open pr"
  shows "maybe_automerge_pull_request_and_rerun_stale_checks cfg env pr b = (Inr False, [])
           \<and> \<not> selected_ready elif_precedence pr
         \<or> (\<exists>targets. maybe_automerge_pull_request_and_rerun_stale_checks cfg env pr b =
               (Inr False, map (rerequest_call pr) targets)
               \<and> rerun_triggered env (map (rerequest_call pr) targets))
           \<and> selected_ready elif_precedence pr
         \<or> (\<exists>targets. maybe_automerge_pull_request_and_rerun_stale_checks cfg env pr b =
               (Inr True, map (rerequest_call pr) targets @ [merge_call pr])
               \<and> \<not> rerun_triggered env (map (rerequest_call pr) targets))
           \<and> selected_ready elif_precedence pr
         \<or> (\<exists>e. maybe_automerge_pull_request_and_rerun_stale_checks cfg env pr b = (Inl e, []))
           \<and> selected_ready elif_precedence pr
           \<and> \<not> (freshness_representable cfg env \<and> pr_commits pr \<noteq> [])"
proof -
  consider
      (idle) "automerge_readiness cfg env pr b = (Inr (False, False), [])"
        "\<not> selected_ready elif_precedence pr"
    | (ready) targets where
        "automerge_readiness cfg env pr b =
           (Inr (True, rerun_triggered env (map (rerequest_call pr) targets)),
            map (rerequest_call pr) targets)"
        "selected_ready elif_precedence pr"
    | (failed) e where "automerge_readiness cfg env pr b = (Inl e, [])"
        "selected_ready elif_precedence pr"
        "\<not> (freshness_representable cfg env \<and> pr_commits pr \<noteq> [])"
    using automerge_readiness_outcomes [OF assms, of env b] by blast
  then show ?thesis
  proof cases
    case idle
    then show ?thesis
      by (simp add: maybe_automerge_pull_request_and_rerun_stale_checks_def)
  next
    case ready
    show ?thesis
    proof (cases "rerun_triggered env (map (rerequest_call pr) targets)")
      case True
      with ready
      have "maybe_automerge_pull_request_and_rerun_stale_checks cfg env pr b =
              (Inr False, map (rerequest_call pr) targets)"
        by (simp add: maybe_automerge_pull_request_and_rerun_stale_checks_def)
      with True ready(2) show ?thesis by blast
    next
      case False
      with ready
      have "maybe_automerge_pull_request_and_rerun_stale_checks cfg env pr b =
              (Inr True, map (rerequest_call pr) targets @ [merge_call pr])"
        by (simp add: maybe_automerge_pull_request_and_rerun_stale_checks_def merge_call_def)
      with False ready(2) show ?thesis by blast
    qed
  next
    case failed
    then have "maybe_automerge_pull_request_and_rerun_stale_checks cfg env pr b = (Inl e, [])"
      by (simp add: maybe_automerge_pull_request_and_rerun_stale_checks_def)
    with failed(2,3) show ?thesis by blast
  qed
qed

lemma rerun_triggered_append_merge:
  "rerun_triggered env (calls @ [merge_pull_request owner repo n title body])
     = rerun_triggered env calls"
  by (simp add: rerun_triggered_def)

text \<open>
  C1, as the code has it. For an open pull request with the feature enabled, the readiness
  that the function computes is that of one label: the first that the pull request
  carries in the order IMMEDIATELY, AFTER_TESTS, AFTER_TESTS_AND_APPROVAL, AFTER_APPROVAL
  (and when the stale-check scan fails, it was reached because that predicate held). So
  with both AFTER_TESTS_AND_APPROVAL and AFTER_TESTS and without IMMEDIATELY the predicate
  of AFTER_TESTS decides, and with IMMEDIATELY, whatever else is there, the predicate of
  IMMEDIATELY decides and nothing else is done.
\<close>

theorem automerge_label_precedence:
  assumes "SGTM_FEATURE__AUTOMERGE_ENABLED cfg" and "pull_request_is_open pr"
  shows "(\<forall>ready d. fst (automerge_readiness cfg env pr b) = Inr (ready, d)
            \<longrightarrow> ready = selected_ready elif_precedence pr)
       \<and> (\<forall>e. fst (automerge_readiness cfg env pr b) = Inl e
            \<longrightarrow> selected_ready elif_precedence pr)
       \<and> (pull_request_has_label pr (label_value AFTER_TESTS_AND_APPROVAL)
          \<and> pull_request_has_label pr (label_value AFTER_TESTS)
          \<and> \<not> pull_request_has_label pr (label_value IMMEDIATELY)
            \<longrightarrow> selected_label elif_precedence pr = Some AFTER_TESTS)
       \<and> (pull_request_has_label pr (label_value IMMEDIATELY)
            \<longrightarrow> selected_label elif_precedence pr = Some IMMEDIATELY
                \<and> automerge_readiness cfg env pr b
                    = (Inr (readiness_predicate IMMEDIATELY pr, False), []))"
proof (intro conjI allI impI)
  fix ready d
  assume "fst (automerge_readiness cfg env pr b) = Inr (ready, d)"
  then show "ready = selected_ready elif_precedence pr"
    using automerge_readiness_outcomes [OF assms, of env b] by fastforce
next
  fix e
  assume "fst (automerge_readiness cfg env pr b) = Inl e"
  then show "selected_ready elif_precedence pr"
    using automerge_readiness_outcomes [OF assms, of env b] by fastforce
next
  assume "pull_request_has_label pr (label_value AFTER_TESTS_AND_APPROVAL)
          \<and> pull_request_has_label pr (label_value AFTER_TESTS)
          \<and> \<not> pull_request_has_label pr (label_value IMMEDIATELY)"
  then show "selected_label elif_precedence pr = Some AFTER_TESTS"
    by (simp add: selected_label_def elif_precedence_def)
next
  assume imm: "pull_request_has_label pr (label_value IMMEDIATELY)"
  then show "selected_label elif_precedence pr = Some IMMEDIATELY"
    by (simp add: selected_label_def elif_precedence_def)
  then show "automerge_readiness cfg env pr b
               = (Inr (readiness_predicate IMMEDIATELY pr, False), [])"
    using assms by (simp add: automerge_readiness_by_label)
qed

theorem automerge_label_precedence_witness:
  "SGTM_FEATURE__AUTOMERGE_ENABLED example_config
   \<and> pull_request_is_open
        (labelled_pull_request [''merge after tests and approval'', ''merge after tests''] [])
   \<and> selected_label elif_precedence
        (labelled_pull_request [''merge after tests and approval'', ''merge after tests''] [])
       = Some AFTER_TESTS
   \<and> fst (automerge_readiness example_config example_env
             (labelled_pull_request [''merge after tests and approval'', ''merge after tests'']
                []) False)
       = Inr (True, False)
   \<and> selected_label elif_precedence
        (labelled_pull_request [''merge after approval'', ''merge immediately''] [])
       = Some IMMEDIATELY
   \<and> automerge_readiness example_config example_env
        (labelled_pull_request [''merge after approval'', ''merge immediately''] []) False
       = (Inr (True, False), [])"
  using
    automerge_label_precedence
      [of example_config
          "labelled_pull_request [''merge after tests and approval'', ''merge after tests''] []"
          example_env False]
    automerge_label_precedence
      [of example_config
          "labelled_pull_request [''merge after approval'', ''merge immediately''] []"
          example_env False]
  by (simp add: automerge_defs example_defs selected_label_def elif_precedence_def
        rerun_check_suites.simps)

text \<open>
  The order IMMEDIATELY, AFTER_TESTS_AND_APPROVAL, AFTER_TESTS, AFTER_APPROVAL is not the
  one of the code. On a pull request labelled with both AFTER_TESTS_AND_APPROVAL and
  AFTER_TESTS, built, mergeable and not approved, that order selects
  AFTER_TESTS_AND_APPROVAL, whose predicate is false; the code finds the pull request
  ready and merges it.
\<close>

theorem automerge_prefers_after_tests:
  "pull_request_has_label
      (labelled_pull_request [''merge after tests and approval'', ''merge after tests''] [])
      (label_value AFTER_TESTS_AND_APPROVAL)
   \<and> pull_request_has_label
      (labelled_pull_request [''merge after tests and approval'', ''merge after tests''] [])
      (label_value AFTER_TESTS)
   \<and> selected_label spec_precedence
        (labelled_pull_request [''merge after tests and approval'', ''merge after tests''] [])
       = Some AFTER_TESTS_AND_APPROVAL
   \<and> \<not> readiness_predicate AFTER_TESTS_AND_APPROVAL
          (labelled_pull_request [''merge after tests and approval'', ''merge after tests''] [])
   \<and> \<not> selected_ready spec_precedence
          (labelled_pull_request [''merge after tests and approval'', ''merge after tests''] [])
   \<and> fst (automerge_readiness example_config example_env
             (labelled_pull_request [''merge after tests and approval'', ''merge after tests'']
                []) False)
       = Inr (True, False)
   \<and> maybe_automerge_pull_request_and_rerun_stale_checks example_config example_env
        (labelled_pull_request [''merge after tests and approval'', ''merge after tests''] [])
        False
       = (Inr True, [merge_pull_request ''acme'' ''widgets'' 1 ''Fix the parser''
                       ''Closes the parser issue.''])"
  by (simp add: automerge_defs example_defs selected_ready_def selected_label_def
        spec_precedence_def)

text \<open>
  What holds of the whole function. It returns True exactly when it makes the merge call,
  and a merge call it makes carries the title and the body of the pull request. When the
  call does not end in an exception, it returns True exactly when the feature is enabled,
  the pull request is neither closed nor merged, the predicate of the selected label
  holds and no call of this pass to rerun a check was answered with True; it does not end
  in an exception when the snapshot has a commit and the freshness date can be computed.
  When a rerun call was answered with True the function returns False without merging.
  With the feature disabled, or the pull request closed or merged, it returns False and
  calls nothing.
\<close>

lemma maybe_automerge_merge_iff:
  "(fst (maybe_automerge_pull_request_and_rerun_stale_checks cfg env pr b) = Inr True
      \<longleftrightarrow> merge_call pr
            \<in> set (snd (maybe_automerge_pull_request_and_rerun_stale_checks cfg env pr b)))
   \<and> (\<forall>c \<in> set (snd (maybe_automerge_pull_request_and_rerun_stale_checks cfg env pr b)).
         is_merge_call c \<longrightarrow>
         c = merge_pull_request (pr_repository_owner_handle pr) (pr_repository_name pr)
               (pr_number pr) (pr_title pr) (pr_body pr))
   \<and> ((\<forall>e. fst (maybe_automerge_pull_request_and_rerun_stale_checks cfg env pr b) \<noteq> Inl e)
        \<longrightarrow> (fst (maybe_automerge_pull_request_and_rerun_stale_checks cfg env pr b) = Inr True
             \<longleftrightarrow> SGTM_FEATURE__AUTOMERGE_ENABLED cfg \<and> \<not> pr_closed pr \<and> \<not> pr_merged pr
                  \<and> selected_ready elif_precedence pr
                  \<and> \<not> rerun_triggered env
                        (snd (maybe_automerge_pull_request_and_rerun_stale_checks cfg env pr b))))
   \<and> (freshness_representable cfg env \<and> pr_commits pr \<noteq> []
        \<longrightarrow> (\<forall>e. fst (maybe_automerge_pull_request_and_rerun_stale_checks cfg env pr b)
                    \<noteq> Inl e))
   \<and> (rerun_triggered env (snd (maybe_automerge_pull_request_and_rerun_stale_checks cfg env pr b))
        \<longrightarrow> fst (maybe_automerge_pull_request_and_rerun_stale_checks cfg env pr b) = Inr False
            \<and> merge_call pr
                 \<notin> set (snd (maybe_automerge_pull_request_and_rerun_stale_checks cfg env pr b)))
   \<and> (\<not> SGTM_FEATURE__AUTOMERGE_ENABLED cfg \<or> pr_closed pr \<or> pr_merged pr
        \<longrightarrow> maybe_automerge_pull_request_and_rerun_stale_checks cfg env pr b = (Inr False, []))"
proof (cases "SGTM_FEATURE__AUTOMERGE_ENABLED cfg \<and> pull_request_is_open pr")
  case False
  then have "automerge_readiness cfg env pr b = (Inr (False, False), [])"
    by (simp add: automerge_readiness_skipped)
  then have "maybe_automerge_pull_request_and_rerun_stale_checks cfg env pr b = (Inr False, [])"
    by (simp add: maybe_automerge_pull_request_and_rerun_stale_checks_def)
  with False show ?thesis
    by (auto simp add: pull_request_is_open_def rerun_triggered_def)
next
  case True
  then have en: "SGTM_FEATURE__AUTOMERGE_ENABLED cfg" and op: "pull_request_is_open pr"
    by simp_all
  from op have flags: "\<not> pr_closed pr" "\<not> pr_merged pr"
    by (simp_all add: pull_request_is_open_def)
  consider
      (idle) "maybe_automerge_pull_request_and_rerun_stale_checks cfg env pr b = (Inr False, [])"
        "\<not> selected_ready elif_precedence pr"
    | (deferred) targets where
        "maybe_automerge_pull_request_and_rerun_stale_checks cfg env pr b =
           (Inr False, map (rerequest_call pr) targets)"
        "rerun_triggered env (map (rerequest_call pr) targets)"
        "selected_ready elif_precedence pr"
    | (merged) targets where
        "maybe_automerge_pull_request_and_rerun_stale_checks cfg env pr b =
           (Inr True, map (rerequest_call pr) targets @ [merge_call pr])"
        "\<not> rerun_triggered env (map (rerequest_call pr) targets)"
        "selected_ready elif_precedence pr"
    | (failed) e where
        "maybe_automerge_pull_request_and_rerun_stale_checks cfg env pr b = (Inl e, [])"
        "selected_ready elif_precedence pr"
        "\<not> (freshness_representable cfg env \<and> pr_commits pr \<noteq> [])"
    using maybe_automerge_outcomes [OF en op, of env b] by blast
  then show ?thesis
  proof cases
    case idle
    then show ?thesis using en flags by (auto simp add: rerun_triggered_def)
  next
    case deferred
    then show ?thesis using en flags by (auto simp add: rerun_calls_no_merge)
  next
    case merged
    then show ?thesis using en flags
      by (auto simp add: rerun_triggered_append_merge merge_call_def)
  next
    case failed
    then show ?thesis using en flags by (auto simp add: rerun_triggered_def)
  qed
qed

text \<open>
  The scenario of the specification: labelled AFTER_TESTS, built and mergeable, with one
  stale check run, the pull request is not merged and the run is rerun; with the run
  fresh, it is merged; closed, it is left alone.
\<close>

lemma maybe_automerge_scenario:
  "maybe_automerge_pull_request_and_rerun_stale_checks example_config example_env
      (labelled_pull_request [''merge after tests''] [[example_check_run ''run-1'' (Some 100)]])
      False
     = (Inr False, [rerequest_check_run ''acme'' ''widgets'' ''run-1''])"
  "maybe_automerge_pull_request_and_rerun_stale_checks example_config example_env
      (labelled_pull_request [''merge after tests'']
         [[example_check_run ''run-1'' (Some 1793750000000000)]])
      False
     = (Inr True, [merge_pull_request ''acme'' ''widgets'' 1 ''Fix the parser''
                     ''Closes the parser issue.''])"
  "maybe_automerge_pull_request_and_rerun_stale_checks example_config example_env
      ((labelled_pull_request [''merge after tests'']
          [[example_check_run ''run-1'' (Some 1793750000000000)]])\<lparr>pr_closed := True\<rparr>)
      False
     = (Inr False, [])"
  by (simp_all add: automerge_defs example_defs)

text \<open>
  With a threshold of 20000000 hours the freshness date cannot be computed: the same
  pull request with a commit is not merged either, the call ending in an OverflowError.
\<close>

lemma maybe_automerge_overflow:
  "maybe_automerge_pull_request_and_rerun_stale_checks
      (example_config\<lparr>SGTM_FEATURE__CHECK_RERUN_THRESHOLD_HOURS := 20000000\<rparr>) example_env
      (labelled_pull_request [''merge after tests'']
         [[example_check_run ''run-1'' (Some 1793750000000000)]])
      False
     = (Inl OverflowError, [])"
  by (simp add: automerge_defs example_defs)

text \<open>
  C4. The function does not merge every pull request that is ready and for which no
  rerun was triggered. An open pull request labelled AFTER_TESTS, built and mergeable, on
  a base ref of the allow-list, with the threshold at 24 hours and with no commit: the
  predicate of the selected label holds (in the order of the code and in the order of the
  specification alike) and no rerun call is made, yet the function makes no merge call
  and returns no value, the scan of line 362 having ended in an IndexError.
\<close>

theorem automerge_fails_without_commits:
  "selected_ready elif_precedence (example_pull_request\<lparr>pr_labels := [''merge after tests'']\<rparr>)
   \<and> selected_ready spec_precedence (example_pull_request\<lparr>pr_labels := [''merge after tests'']\<rparr>)
   \<and> \<not> rerun_triggered example_env
          (snd (maybe_automerge_pull_request_and_rerun_stale_checks example_config example_env
                  (example_pull_request\<lparr>pr_labels := [''merge after tests'']\<rparr>) False))
   \<and> merge_call (example_pull_request\<lparr>pr_labels := [''merge after tests'']\<rparr>)
        \<notin> set (snd (maybe_automerge_pull_request_and_rerun_stale_checks example_config
                        example_env
                        (example_pull_request\<lparr>pr_labels := [''merge after tests'']\<rparr>) False))
   \<and> maybe_automerge_pull_request_and_rerun_stale_checks example_config example_env
        (example_pull_request\<lparr>pr_labels := [''merge after tests'']\<rparr>) False
       = (Inl IndexError, [])"
  by (simp add: automerge_defs example_defs selected_ready_def selected_label_def
        elif_precedence_def spec_precedence_def rerun_triggered_def)

text \<open>
  C9. The value passed for \<^verbatim>\<open>did_rerun_stale_required_checks\<close> changes neither
  the result nor the calls: line 252 overwrites it before it is read.
\<close>

theorem automerge_ignores_rerun_argument:
  "maybe_automerge_pull_request_and_rerun_stale_checks cfg env pr True
     = maybe_automerge_pull_request_and_rerun_stale_checks cfg env pr False"
  by (simp add: maybe_automerge_pull_request_and_rerun_stale_checks_def automerge_readiness_def)

theorem automerge_ignores_rerun_argument_witness:
  "maybe_automerge_pull_request_and_rerun_stale_checks example_config example_env
      ((labelled_pull_request [''merge after tests and approval'']
          [[example_check_run ''run-1'' (Some 100)]])\<lparr>pr_is_approved := True\<rparr>) True
     = (Inr False, [rerequest_check_run ''acme'' ''widgets'' ''run-1''])
   \<and> maybe_automerge_pull_request_and_rerun_stale_checks example_config example_env
      ((labelled_pull_request [''merge after tests and approval'']
          [[example_check_run ''run-1'' (Some 100)]])\<lparr>pr_is_approved := True\<rparr>) False
     = (Inr False, [rerequest_check_run ''acme'' ''widgets'' ''run-1''])"
proof -
  have "maybe_automerge_pull_request_and_rerun_stale_checks example_config example_env
      ((labelled_pull_request [''merge after tests and approval'']
          [[example_check_run ''run-1'' (Some 100)]])\<lparr>pr_is_approved := True\<rparr>) False
     = (Inr False, [rerequest_check_run ''acme'' ''widgets'' ''run-1''])"
    by (simp add: automerge_defs example_defs)
  then show ?thesis
    using automerge_ignores_rerun_argument
      [of example_config example_env
          "(labelled_pull_request [''merge after tests and approval'']
              [[example_check_run ''run-1'' (Some 100)]])\<lparr>pr_is_approved := True\<rparr>"]
    by simp
qed

subsection \<open>The warning comment\<close>

lemma has_automerge_comment_iff:
  "pull_request_has_automerge_comment pr text \<longleftrightarrow> (\<exists>c \<in> set (pr_comments pr). comment_body c = text)"
  by (simp add: pull_request_has_automerge_comment_def list_ex_iff)

lemma maybe_add_automerge_warning_comment_eq:
  "maybe_add_automerge_warning_comment cfg pr =
     (if SGTM_FEATURE__AUTOMERGE_ENABLED cfg
         \<and> (pull_request_has_label pr (label_value AFTER_TESTS_AND_APPROVAL)
            \<or> pull_request_has_label pr (label_value AFTER_APPROVAL))
         \<and> \<not> pr_is_approved pr
         \<and> \<not> (\<exists>c \<in> set (pr_comments pr). comment_body c = automerge_warning_text pr)
      then [add_pr_comment (pr_repository_owner_handle pr) (pr_repository_name pr)
              (pr_number pr) (automerge_warning_text pr)]
      else [])"
  by (simp add: maybe_add_automerge_warning_comment_def automerge_warning_text_def
        has_automerge_comment_iff Let_def)

lemma automerge_warning_text_labels:
  "pr_labels pr' = pr_labels pr \<Longrightarrow> automerge_warning_text pr' = automerge_warning_text pr"
  by (simp add: automerge_warning_text_def pull_request_has_label_def)

lemma automerge_warning_second_call:
  assumes lab: "pr_labels pr' = pr_labels pr"
    and appr: "pr_is_approved pr' = pr_is_approved pr"
    and sub: "set (pr_comments pr) \<subseteq> set (pr_comments pr')"
    and seen: "\<And>owner repo n body.
                 add_pr_comment owner repo n body
                   \<in> set (maybe_add_automerge_warning_comment cfg pr)
                 \<Longrightarrow> \<exists>c \<in> set (pr_comments pr'). comment_body c = body"
  shows "length (maybe_add_automerge_warning_comment cfg pr
                    @ maybe_add_automerge_warning_comment cfg pr') \<le> 1
           \<and> (maybe_add_automerge_warning_comment cfg pr \<noteq> []
                \<longrightarrow> maybe_add_automerge_warning_comment cfg pr' = [])"
proof -
  from lab have same_text: "automerge_warning_text pr' = automerge_warning_text pr"
    by (rule automerge_warning_text_labels)
  from lab have labels: "pull_request_has_label pr' l = pull_request_has_label pr l" for l
    by (simp add: pull_request_has_label_def)
  have second: "maybe_add_automerge_warning_comment cfg pr' = []"
    if "\<not> SGTM_FEATURE__AUTOMERGE_ENABLED cfg
        \<or> \<not> (pull_request_has_label pr (label_value AFTER_TESTS_AND_APPROVAL)
              \<or> pull_request_has_label pr (label_value AFTER_APPROVAL))
        \<or> pr_is_approved pr
        \<or> (\<exists>c \<in> set (pr_comments pr'). comment_body c = automerge_warning_text pr)"
  proof -
    have "maybe_add_automerge_warning_comment cfg pr' =
            (if SGTM_FEATURE__AUTOMERGE_ENABLED cfg
                \<and> (pull_request_has_label pr (label_value AFTER_TESTS_AND_APPROVAL)
                   \<or> pull_request_has_label pr (label_value AFTER_APPROVAL))
                \<and> \<not> pr_is_approved pr
                \<and> \<not> (\<exists>c \<in> set (pr_comments pr'). comment_body c = automerge_warning_text pr)
             then [add_pr_comment (pr_repository_owner_handle pr') (pr_repository_name pr')
                     (pr_number pr') (automerge_warning_text pr)]
             else [])"
      by (simp only: maybe_add_automerge_warning_comment_eq labels appr same_text)
    also have "\<dots> = []"
      using that by (intro if_not_P) blast
    finally show ?thesis .
  qed
  show ?thesis
  proof (cases "SGTM_FEATURE__AUTOMERGE_ENABLED cfg
         \<and> (pull_request_has_label pr (label_value AFTER_TESTS_AND_APPROVAL)
            \<or> pull_request_has_label pr (label_value AFTER_APPROVAL))
         \<and> \<not> pr_is_approved pr
         \<and> \<not> (\<exists>c \<in> set (pr_comments pr). comment_body c = automerge_warning_text pr)")
    case False
    then have first: "maybe_add_automerge_warning_comment cfg pr = []"
      by (simp only: maybe_add_automerge_warning_comment_eq if_False)
    from False sub
    have "\<not> SGTM_FEATURE__AUTOMERGE_ENABLED cfg
        \<or> \<not> (pull_request_has_label pr (label_value AFTER_TESTS_AND_APPROVAL)
              \<or> pull_request_has_label pr (label_value AFTER_APPROVAL))
        \<or> pr_is_approved pr
        \<or> (\<exists>c \<in> set (pr_comments pr'). comment_body c = automerge_warning_text pr)"
      by blast
    then have "maybe_add_automerge_warning_comment cfg pr' = []" by (rule second)
    with first show ?thesis by simp
  next
    case True
    have posted: "maybe_add_automerge_warning_comment cfg pr =
        [add_pr_comment (pr_repository_owner_handle pr) (pr_repository_name pr)
              (pr_number pr) (automerge_warning_text pr)]"
      by (subst maybe_add_automerge_warning_comment_eq) (rule if_P, rule True)
    then have "add_pr_comment (pr_repository_owner_handle pr) (pr_repository_name pr)
              (pr_number pr) (automerge_warning_text pr)
                 \<in> set (maybe_add_automerge_warning_comment cfg pr)"
      by simp
    then have "\<exists>c \<in> set (pr_comments pr'). comment_body c = automerge_warning_text pr"
      by (rule seen)
    then have "maybe_add_automerge_warning_comment cfg pr' = []"
      by (simp add: second)
    with posted show ?thesis by simp
  qed
qed

text \<open>
  C6. The function posts the warning exactly when the feature is enabled, the pull request
  carries AFTER_TESTS_AND_APPROVAL or AFTER_APPROVAL, it is not approved, and no comment
  of the snapshot has the warning text of its labels as its body. Called a second time on
  a snapshot with the same labels and approval that still holds the comments of the first
  and a comment for what the first call posted, it posts nothing if the first call
  posted, so that the two calls post at most one comment; and on a snapshot that already
  holds the warning it posts nothing.
\<close>

theorem automerge_warning_idempotent:
  "maybe_add_automerge_warning_comment cfg pr =
     (if SGTM_FEATURE__AUTOMERGE_ENABLED cfg
         \<and> (pull_request_has_label pr (label_value AFTER_TESTS_AND_APPROVAL)
            \<or> pull_request_has_label pr (label_value AFTER_APPROVAL))
         \<and> \<not> pr_is_approved pr
         \<and> \<not> (\<exists>c \<in> set (pr_comments pr). comment_body c = automerge_warning_text pr)
      then [add_pr_comment (pr_repository_owner_handle pr) (pr_repository_name pr)
              (pr_number pr) (automerge_warning_text pr)]
      else [])
   \<and> (pr_labels pr' = pr_labels pr \<and> pr_is_approved pr' = pr_is_approved pr
       \<and> set (pr_comments pr) \<subseteq> set (pr_comments pr')
       \<and> (\<forall>owner repo n body.
             add_pr_comment owner repo n body \<in> set (maybe_add_automerge_warning_comment cfg pr)
             \<longrightarrow> (\<exists>c \<in> set (pr_comments pr'). comment_body c = body))
       \<longrightarrow> length (maybe_add_automerge_warning_comment cfg pr
                    @ maybe_add_automerge_warning_comment cfg pr') \<le> 1
           \<and> (maybe_add_automerge_warning_comment cfg pr \<noteq> []
                \<longrightarrow> maybe_add_automerge_warning_comment cfg pr' = []))
   \<and> ((\<exists>c \<in> set (pr_comments pr). comment_body c = automerge_warning_text pr)
       \<longrightarrow> maybe_add_automerge_warning_comment cfg pr = [])"
proof -
  have posts: "maybe_add_automerge_warning_comment cfg pr =
     (if SGTM_FEATURE__AUTOMERGE_ENABLED cfg
         \<and> (pull_request_has_label pr (label_value AFTER_TESTS_AND_APPROVAL)
            \<or> pull_request_has_label pr (label_value AFTER_APPROVAL))
         \<and> \<not> pr_is_approved pr
         \<and> \<not> (\<exists>c \<in> set (pr_comments pr). comment_body c = automerge_warning_text pr)
      then [add_pr_comment (pr_repository_owner_handle pr) (pr_repository_name pr)
              (pr_number pr) (automerge_warning_text pr)]
      else [])"
    by (rule maybe_add_automerge_warning_comment_eq)
  have twice: "pr_labels pr' = pr_labels pr \<and> pr_is_approved pr' = pr_is_approved pr
       \<and> set (pr_comments pr) \<subseteq> set (pr_comments pr')
       \<and> (\<forall>owner repo n body.
             add_pr_comment owner repo n body \<in> set (maybe_add_automerge_warning_comment cfg pr)
             \<longrightarrow> (\<exists>c \<in> set (pr_comments pr'). comment_body c = body))
       \<longrightarrow> length (maybe_add_automerge_warning_comment cfg pr
                    @ maybe_add_automerge_warning_comment cfg pr') \<le> 1
           \<and> (maybe_add_automerge_warning_comment cfg pr \<noteq> []
                \<longrightarrow> maybe_add_automerge_warning_comment cfg pr' = [])"
  proof
    assume h: "pr_labels pr' = pr_labels pr \<and> pr_is_approved pr' = pr_is_approved pr
       \<and> set (pr_comments pr) \<subseteq> set (pr_comments pr')
       \<and> (\<forall>owner repo n body.
             add_pr_comment owner repo n body \<in> set (maybe_add_automerge_warning_comment cfg pr)
             \<longrightarrow> (\<exists>c \<in> set (pr_comments pr'). comment_body c = body))"
    then have "pr_labels pr' = pr_labels pr"
      and "pr_is_approved pr' = pr_is_approved pr"
      and "set (pr_comments pr) \<subseteq> set (pr_comments pr')"
      and "\<And>owner repo n body.
                 add_pr_comment owner repo n body
                   \<in> set (maybe_add_automerge_warning_comment cfg pr)
                 \<Longrightarrow> \<exists>c \<in> set (pr_comments pr'). comment_body c = body"
      by blast+
    then show "length (maybe_add_automerge_warning_comment cfg pr
                    @ maybe_add_automerge_warning_comment cfg pr') \<le> 1
           \<and> (maybe_add_automerge_warning_comment cfg pr \<noteq> []
                \<longrightarrow> maybe_add_automerge_warning_comment cfg pr' = [])"
      by (rule automerge_warning_second_call)
  qed
  have present: "(\<exists>c \<in> set (pr_comments pr). comment_body c = automerge_warning_text pr)
       \<longrightarrow> maybe_add_automerge_warning_comment cfg pr = []"
    by (simp add: maybe_add_automerge_warning_comment_eq)
  show ?thesis
    by (rule conjI [OF posts conjI [OF twice present]])
qed

theorem automerge_warning_idempotent_witness:
  "maybe_add_automerge_warning_comment example_config
      (labelled_pull_request [''merge after tests and approval''] [])
     = [add_pr_comment ''acme'' ''widgets'' 1 AUTOMERGE_COMMENT_WARNING_AFTER_TESTS_AND_APPROVAL]
   \<and> maybe_add_automerge_warning_comment example_config
      ((labelled_pull_request [''merge after tests and approval''] [])
         \<lparr>pr_comments := [example_comment ''sgtm-bot'' 10
                            AUTOMERGE_COMMENT_WARNING_AFTER_TESTS_AND_APPROVAL]\<rparr>)
     = []"
  using automerge_warning_idempotent
    [of example_config "labelled_pull_request [''merge after tests and approval''] []"
        "(labelled_pull_request [''merge after tests and approval''] [])
           \<lparr>pr_comments := [example_comment ''sgtm-bot'' 10
                              AUTOMERGE_COMMENT_WARNING_AFTER_TESTS_AND_APPROVAL]\<rparr>"]
  by (simp add: example_defs example_comment_def automerge_warning_text_def
        pull_request_has_label_def)

end
